theory Spec2Isabelle
  imports Complex_Main
begin

section \<open>Numbers and arrays of the numerical library\<close>

text \<open>
  The program computes with numpy's double-precision floats. They are modelled as the exact
  reals together with the three non-finite values that numpy's arithmetic produces instead of
  raising: dividing by zero gives an infinity or, for \<open>0 / 0\<close>, a NaN (with a runtime
  warning only). Rounding, overflow and signed zeros are not modelled: a sum or a mean
  of the model is the exact one, where that of doubles can differ from it in the last
  digits (the mean of three times \<open>0.1\<close> is not \<open>0.1\<close>) or overflow to an infinity.
\<close>

datatype npfloat = Fin real | PInf | NInf | NaN

datatype py_error = ValueError | IndexError | ZeroDivisionError | CollaboratorError

fun inf_of_sign :: "real \<Rightarrow> npfloat" where
  "inf_of_sign s = (if 0 < s then PInf else if s < 0 then NInf else NaN)"

fun sign_of :: "npfloat \<Rightarrow> real" where
  "sign_of (Fin a) = sgn a"
| "sign_of PInf = 1"
| "sign_of NInf = - 1"
| "sign_of NaN = 0"

instantiation npfloat :: "{zero,one,plus,uminus,minus,times,inverse,ord}"
begin

definition zero_npfloat :: npfloat where
  "zero_npfloat = Fin 0"

definition one_npfloat :: npfloat where
  "one_npfloat = Fin 1"

fun plus_npfloat :: "npfloat \<Rightarrow> npfloat \<Rightarrow> npfloat" where
  "Fin a + Fin b = Fin (a + b)"
| "NaN + _ = NaN"
| "_ + NaN = NaN"
| "PInf + NInf = NaN"
| "NInf + PInf = NaN"
| "PInf + _ = PInf"
| "_ + PInf = PInf"
| "NInf + _ = NInf"
| "_ + NInf = NInf"

fun uminus_npfloat :: "npfloat \<Rightarrow> npfloat" where
  "- Fin a = Fin (- a)"
| "- PInf = NInf"
| "- NInf = PInf"
| "- NaN = NaN"

definition minus_npfloat :: "npfloat \<Rightarrow> npfloat \<Rightarrow> npfloat" where
  "minus_npfloat x y = x + (- y)"

fun times_npfloat :: "npfloat \<Rightarrow> npfloat \<Rightarrow> npfloat" where
  "Fin a * Fin b = Fin (a * b)"
| "NaN * _ = NaN"
| "_ * NaN = NaN"
| "x * y = inf_of_sign (sign_of x * sign_of y)"

fun divide_npfloat :: "npfloat \<Rightarrow> npfloat \<Rightarrow> npfloat" where
  "divide_npfloat (Fin a) (Fin b) = (if b = 0 then inf_of_sign a else Fin (a / b))"
| "divide_npfloat NaN _ = NaN"
| "divide_npfloat _ NaN = NaN"
| "divide_npfloat (Fin a) _ = Fin 0"
| "divide_npfloat x (Fin b) = inf_of_sign (sign_of x * (if b < 0 then - 1 else 1))"
| "divide_npfloat _ _ = NaN"

definition inverse_npfloat :: "npfloat \<Rightarrow> npfloat" where
  "inverse_npfloat x = divide (Fin 1) x"

fun less_eq_npfloat :: "npfloat \<Rightarrow> npfloat \<Rightarrow> bool" where
  "less_eq_npfloat (Fin a) (Fin b) = (a \<le> b)"
| "less_eq_npfloat NaN _ = False"
| "less_eq_npfloat _ NaN = False"
| "less_eq_npfloat NInf _ = True"
| "less_eq_npfloat _ PInf = True"
| "less_eq_npfloat _ _ = False"

fun less_npfloat :: "npfloat \<Rightarrow> npfloat \<Rightarrow> bool" where
  "less_npfloat (Fin a) (Fin b) = (a < b)"
| "less_npfloat NaN _ = False"
| "less_npfloat _ NaN = False"
| "less_npfloat PInf _ = False"
| "less_npfloat _ NInf = False"
| "less_npfloat _ _ = True"

instance ..

end

fun np_sqrt :: "npfloat \<Rightarrow> npfloat" where
  "np_sqrt (Fin a) = (if a < 0 then NaN else Fin (sqrt a))"
| "np_sqrt PInf = PInf"
| "np_sqrt NInf = NaN"
| "np_sqrt NaN = NaN"

fun np_exp :: "npfloat \<Rightarrow> npfloat" where
  "np_exp (Fin a) = Fin (exp a)"
| "np_exp PInf = PInf"
| "np_exp NInf = Fin 0"
| "np_exp NaN = NaN"

fun np_abs :: "npfloat \<Rightarrow> npfloat" where
  "np_abs (Fin a) = Fin \<bar>a\<bar>"
| "np_abs PInf = PInf"
| "np_abs NInf = PInf"
| "np_abs NaN = NaN"

fun is_finite :: "npfloat \<Rightarrow> bool" where
  "is_finite (Fin a) = True"
| "is_finite _ = False"

text \<open>\<open>np.sum\<close> of a one-dimensional array.\<close>

definition np_sum :: "npfloat list \<Rightarrow> npfloat" where
  "np_sum xs = foldr (+) xs 0"

text \<open>
  A two-dimensional array carries its shape, so that an array with no rows still has a
  number of columns, as in numpy.
\<close>

record array2 =
  nrows :: nat
  ncols :: nat
  rows :: "npfloat list list"

definition ent :: "array2 \<Rightarrow> nat \<Rightarrow> nat \<Rightarrow> npfloat" where
  "ent M i j = rows M ! i ! j"

text \<open>The array of shape \<open>(r, c)\<close> whose entry \<open>(i, j)\<close> is \<open>f i j\<close>.\<close>

definition tabulate2 :: "nat \<Rightarrow> nat \<Rightarrow> (nat \<Rightarrow> nat \<Rightarrow> npfloat) \<Rightarrow> array2" where
  "tabulate2 r c f =
     \<lparr>nrows = r, ncols = c, rows = map (\<lambda>i. map (\<lambda>j. f i j) [0..<c]) [0..<r]\<rparr>"

definition wf_array :: "array2 \<Rightarrow> bool" where
  "wf_array M =
     (length (rows M) = nrows M \<and> list_all (\<lambda>row. length row = ncols M) (rows M))"

text \<open>\<open>M.T\<close>\<close>

definition transpose_a :: "array2 \<Rightarrow> array2" where
  "transpose_a M = tabulate2 (ncols M) (nrows M) (\<lambda>i j. ent M j i)"

text \<open>
  \<open>np.dot\<close> of two two-dimensional arrays: the matrix product; a \<open>ValueError\<close> when
  the inner dimensions differ. Every entry is the sum of the products, also where a factor
  is 0 and the other a NaN or an infinity; the library's linear algebra routines can leave
  out a product with a factor 0 there (a one-by-one operand holding 0 gives zeros), which
  is not modelled.
\<close>

definition np_dot :: "array2 \<Rightarrow> array2 \<Rightarrow> py_error + array2" where
  "np_dot A B =
     (if ncols A = nrows B
      then Inr (tabulate2 (nrows A) (ncols B)
                  (\<lambda>i j. np_sum (map (\<lambda>k. ent A i k * ent B k j) [0..<ncols A])))
      else Inl ValueError)"

text \<open>
  \<open>np.dot\<close> of a one-dimensional array and a two-dimensional one: the vector-matrix product.
\<close>

definition np_dot_vec :: "npfloat list \<Rightarrow> array2 \<Rightarrow> py_error + npfloat list" where
  "np_dot_vec v B =
     (if length v = nrows B
      then Inr (map (\<lambda>j. np_sum (map (\<lambda>k. v ! k * ent B k j) [0..<length v])) [0..<ncols B])
      else Inl ValueError)"

text \<open>
  \<open>a[m <= 0] = 0\<close>: assignment through a boolean mask computed from \<open>m\<close>. The mask must
  have the shape of \<open>a\<close>; numpy raises an \<open>IndexError\<close> otherwise.
\<close>

definition mask_le_zero :: "array2 \<Rightarrow> array2 \<Rightarrow> py_error + array2" where
  "mask_le_zero a m =
     (if nrows m = nrows a \<and> ncols m = ncols a
      then Inr (tabulate2 (nrows a) (ncols a)
                  (\<lambda>i j. if ent m i j \<le> 0 then 0 else ent a i j))
      else Inl IndexError)"


text \<open>
  An arithmetic operation on two two-dimensional arrays, with numpy's broadcasting: two
  dimensions are compatible when they are equal or one of them is 1, and an axis of
  length 1 is stretched. Incompatible shapes raise a \<open>ValueError\<close>.
\<close>

definition bdim :: "nat \<Rightarrow> nat \<Rightarrow> nat option" where
  "bdim a b = (if a = b then Some a else if a = 1 then Some b else if b = 1 then Some a else None)"

definition bent :: "array2 \<Rightarrow> nat \<Rightarrow> nat \<Rightarrow> npfloat" where
  "bent M i j = ent M (if nrows M = 1 then 0 else i) (if ncols M = 1 then 0 else j)"

definition broadcast2 ::
  "(npfloat \<Rightarrow> npfloat \<Rightarrow> npfloat) \<Rightarrow> array2 \<Rightarrow> array2 \<Rightarrow> py_error + array2" where
  "broadcast2 f A B =
     (case bdim (nrows A) (nrows B) of
        None \<Rightarrow> Inl ValueError
      | Some r \<Rightarrow>
     (case bdim (ncols A) (ncols B) of
        None \<Rightarrow> Inl ValueError
      | Some c \<Rightarrow> Inr (tabulate2 r c (\<lambda>i j. f (bent A i j) (bent B i j)))))"

text \<open>
  The in-place forms \<open>A += B\<close>, \<open>A *= B\<close>: the broadcast result must have the shape
  of \<open>A\<close>, else numpy raises a \<open>ValueError\<close>.
\<close>

definition inplace2 ::
  "(npfloat \<Rightarrow> npfloat \<Rightarrow> npfloat) \<Rightarrow> array2 \<Rightarrow> array2 \<Rightarrow> py_error + array2" where
  "inplace2 f A B =
     (case broadcast2 f A B of
        Inl e \<Rightarrow> Inl e
      | Inr C \<Rightarrow> if nrows C = nrows A \<and> ncols C = ncols A then Inr C else Inl ValueError)"

text \<open>An operation applied to every entry (a scalar operand, \<open>**2\<close>, \<open>np.sqrt\<close>).\<close>

definition map_array :: "(npfloat \<Rightarrow> npfloat) \<Rightarrow> array2 \<Rightarrow> array2" where
  "map_array f A = tabulate2 (nrows A) (ncols A) (\<lambda>i j. f (ent A i j))"

definition zeros_like :: "array2 \<Rightarrow> array2" where
  "zeros_like A = tabulate2 (nrows A) (ncols A) (\<lambda>i j. 0)"

text \<open>
  \<open>np.array\<close> of a non-empty Python list of one-dimensional arrays of one length: the
  two-dimensional array with these rows.
\<close>

definition np_array :: "npfloat list list \<Rightarrow> array2" where
  "np_array xs = \<lparr>nrows = length xs, ncols = length (hd xs), rows = xs\<rparr>"

definition np_repeat :: "npfloat list \<Rightarrow> nat \<Rightarrow> npfloat list" where
  "np_repeat xs n = concat (map (replicate n) xs)"

definition np_reshape :: "npfloat list \<Rightarrow> nat \<Rightarrow> nat \<Rightarrow> py_error + array2" where
  "np_reshape xs r c =
     (if length xs = r * c then Inr (tabulate2 r c (\<lambda>i j. xs ! (i * c + j)))
      else Inl ValueError)"

text \<open>\<open>np.mean\<close> of a one-dimensional array, as the exact quotient.\<close>

definition np_mean :: "npfloat list \<Rightarrow> npfloat" where
  "np_mean xs = np_sum xs / Fin (real (length xs))"

text \<open>\<open>np.std(x)\<close> is \<open>sqrt(mean(abs(x - x.mean())**2))\<close>.\<close>

definition np_std :: "npfloat list \<Rightarrow> npfloat" where
  "np_std xs =
     np_sqrt (np_mean (map (\<lambda>x. np_abs (x - np_mean xs) * np_abs (x - np_mean xs)) xs))"

text \<open>Python's built-in \<open>sum\<close>, which starts from 0 and adds from the left.\<close>

definition py_sum :: "npfloat list \<Rightarrow> npfloat" where
  "py_sum xs = foldl (+) 0 xs"

text \<open>Python's \<open>%\<close> on integers: the sign of the result is that of the divisor.\<close>

definition py_mod :: "int \<Rightarrow> int \<Rightarrow> py_error + int" where
  "py_mod a b = (if b = 0 then Inl ZeroDivisionError else Inr (a mod b))"

text \<open>\<open>xs[i] = v\<close> on a one-dimensional array; a negative index counts from the end.\<close>

definition setitem :: "npfloat list \<Rightarrow> int \<Rightarrow> npfloat \<Rightarrow> py_error + npfloat list" where
  "setitem xs i v =
     (let n = int (length xs); k = (if i < 0 then n + i else i)
      in if 0 \<le> k \<and> k < n then Inr (xs[nat k := v]) else Inl IndexError)"

section \<open>The policy network\<close>

text \<open>\<open>sigmoid\<close>, applied by \<open>forward_step\<close> to a one-dimensional array.\<close>

definition sigmoid :: "npfloat list \<Rightarrow> npfloat list" where
  "sigmoid x = map (\<lambda>v. 1 / (1 + np_exp (- v))) x"

text \<open>
  \<open>KPLearner.forward_step\<close>. The weights \<open>self.w1\<close> and \<open>self.w2\<close> are arguments;
  \<open>np.dot\<close> returns a fresh array, so the assignment through the mask \<open>x1 < 0\<close>
  changes that array only.
\<close>

definition forward_step ::
  "array2 \<Rightarrow> array2 \<Rightarrow> npfloat list \<Rightarrow> py_error + (npfloat list \<times> npfloat list)" where
  "forward_step W1 W2 st =
     (case np_dot_vec st W1 of
        Inl e \<Rightarrow> Inl e
      | Inr pre \<Rightarrow>
        (let h = map (\<lambda>v. if v < 0 then 0 else v) pre
         in case np_dot_vec h W2 of
              Inl e \<Rightarrow> Inl e
            | Inr z \<Rightarrow> Inr (h, sigmoid z)))"

text \<open>
  \<open>KPLearner.backward_step\<close>. The only field of the learner it reads is \<open>self.w2\<close>, which
  is passed as the first argument.
\<close>

definition backward_step ::
  "array2 \<Rightarrow> array2 \<Rightarrow> array2 \<Rightarrow> array2 \<Rightarrow> py_error + (array2 \<times> array2)" where
  "backward_step W2 x0 x1 feedback =
     (case np_dot (transpose_a x1) feedback of
        Inl e \<Rightarrow> Inl e
      | Inr change_w2 \<Rightarrow>
     (case np_dot feedback (transpose_a W2) of
        Inl e \<Rightarrow> Inl e
      | Inr dh \<Rightarrow>
     (case mask_le_zero dh x1 of
        Inl e \<Rightarrow> Inl e
      | Inr dh' \<Rightarrow>
     (case np_dot (transpose_a x0) dh' of
        Inl e \<Rightarrow> Inl e
      | Inr change_w1 \<Rightarrow> Inr (change_w1, change_w2)))))"

text \<open>
  The backward pass as the specification words it, entry by entry: \<open>dh\<close> is the error signal
  times the transpose of \<open>W2\<close>, set to zero where the recorded hidden activation is at most
  zero; \<open>grad_W1\<close> is the transposed input batch times \<open>dh\<close>; \<open>grad_W2\<close> is the
  transposed hidden batch times the error signal.
\<close>

definition spec_dh :: "array2 \<Rightarrow> array2 \<Rightarrow> array2 \<Rightarrow> nat \<Rightarrow> nat \<Rightarrow> npfloat" where
  "spec_dh W2 hidden err t j =
     (if ent hidden t j \<le> 0 then 0
      else np_sum (map (\<lambda>a. ent err t a * ent W2 j a) [0..<ncols err]))"

definition spec_grad_W1 :: "array2 \<Rightarrow> array2 \<Rightarrow> array2 \<Rightarrow> array2 \<Rightarrow> array2" where
  "spec_grad_W1 W2 inp hidden err =
     tabulate2 (ncols inp) (nrows W2)
       (\<lambda>i j. np_sum (map (\<lambda>t. ent inp t i * spec_dh W2 hidden err t j) [0..<nrows inp]))"

definition spec_grad_W2 :: "array2 \<Rightarrow> array2 \<Rightarrow> array2" where
  "spec_grad_W2 hidden err =
     tabulate2 (ncols hidden) (ncols err)
       (\<lambda>j a. np_sum (map (\<lambda>t. ent hidden t j * ent err t a) [0..<nrows hidden]))"

section \<open>The action sampler\<close>

text \<open>
  \<open>np.random.choice(n, p=probs)\<close> belongs to the numerical library and draws from the
  process-wide random source. It is a parameter of the model: a function of the state of
  the random source that returns an index and the next state, or raises.
\<close>

type_synonym 'r sampler = "'r \<Rightarrow> nat \<Rightarrow> npfloat list \<Rightarrow> py_error + (nat \<times> 'r)"

text \<open>
  \<open>random_with_probability\<close>. The argument \<open>temperature\<close> is not used by the body
  and is left out.
\<close>

definition random_with_probability ::
  "'r sampler \<Rightarrow> npfloat list \<Rightarrow> nat \<Rightarrow> 'r \<Rightarrow> py_error + ((nat \<times> npfloat list) \<times> 'r)" where
  "random_with_probability choice output n_actions rng =
     (let probs = map (\<lambda>v. v / np_sum output) output
      in case choice rng n_actions probs of
           Inl e \<Rightarrow> Inl e
         | Inr (a, rng') \<Rightarrow> Inr ((a, probs), rng'))"

text \<open>\<open>KPLearner.choose_action\<close>\<close>

definition choose_action ::
  "'r sampler \<Rightarrow> array2 \<Rightarrow> array2 \<Rightarrow> nat \<Rightarrow> npfloat list \<Rightarrow> 'r
     \<Rightarrow> py_error + ((nat \<times> npfloat list \<times> npfloat list) \<times> 'r)" where
  "choose_action choice W1 W2 n_act st rng =
     (case forward_step W1 W2 st of
        Inl e \<Rightarrow> Inl e
      | Inr (h, nn_outputs) \<Rightarrow>
        (case random_with_probability choice nn_outputs n_act rng of
           Inl e \<Rightarrow> Inl e
         | Inr ((a, probs), rng') \<Rightarrow> Inr ((a, probs, h), rng')))"

section \<open>The trajectory collector\<close>

text \<open>
  The environment is a collaborator. It is modelled as a state machine over a state
  \<open>'e\<close>: each of its three methods takes the state and returns its result with the next
  state, or raises. An observation is a one-dimensional array, an action an index.
\<close>

record 'e environment =
  env_reset :: "'e \<Rightarrow> py_error + (npfloat list \<times> 'e)"
  env_step :: "'e \<Rightarrow> nat \<Rightarrow> py_error + ((npfloat list \<times> npfloat \<times> bool) \<times> 'e)"
  env_render :: "'e \<Rightarrow> py_error + 'e"

text \<open>
  The calls made to the collaborators, in order: a step is logged with its action and
  the \<open>done\<close> flag it returned, a report with its arguments.
\<close>

datatype call =
    EnvReset
  | EnvStep nat bool
  | EnvRender
  | PrintIterationStats int "npfloat list" "npfloat list" int
  | DrawRewards "npfloat list"

record ('e, 'r) world =
  env_state :: 'e
  rng_state :: 'r
  calls :: "call list"

text \<open>
  The dictionary that \<open>get_trajectory\<close> returns: each entry is \<open>np.array\<close> of the
  Python list collected under that name, kept here as that list.
\<close>

record trajectory =
  traj_reward :: "npfloat list"
  traj_state :: "npfloat list list"
  traj_action :: "nat list"
  traj_prob :: "npfloat list list"
  traj_x1 :: "npfloat list list"

definition empty_trajectory :: trajectory where
  "empty_trajectory =
     \<lparr>traj_reward = [], traj_state = [], traj_action = [], traj_prob = [], traj_x1 = []\<rparr>"

text \<open>
  The \<open>for\<close> loop of \<open>get_trajectory\<close>, with the number of iterations that
  remain. An exception of \<open>choose_action\<close>, \<open>env.step\<close> or \<open>env.render\<close> leaves the
  loop and the function.
\<close>

fun episode_loop ::
  "'e environment \<Rightarrow> 'r sampler \<Rightarrow> array2 \<Rightarrow> array2 \<Rightarrow> nat \<Rightarrow> bool \<Rightarrow> nat \<Rightarrow> npfloat list
     \<Rightarrow> trajectory \<Rightarrow> ('e, 'r) world \<Rightarrow> py_error + (trajectory \<times> ('e, 'r) world)" where
  "episode_loop env choice W1 W2 n_act render 0 st tr wd = Inr (tr, wd)"
| "episode_loop env choice W1 W2 n_act render (Suc n) st tr wd =
     (case choose_action choice W1 W2 n_act st (rng_state wd) of
        Inl e \<Rightarrow> Inl e
      | Inr ((a, probs, h), rng') \<Rightarrow>
     (case env_step env (env_state wd) a of
        Inl e \<Rightarrow> Inl e
      | Inr ((st', rew, done), e') \<Rightarrow>
        (let tr' = \<lparr>traj_reward = traj_reward tr @ [rew],
                    traj_state = traj_state tr @ [st],
                    traj_action = traj_action tr @ [a],
                    traj_prob = traj_prob tr @ [probs],
                    traj_x1 = traj_x1 tr @ [h]\<rparr>;
             wd' = \<lparr>env_state = e', rng_state = rng', calls = calls wd @ [EnvStep a done]\<rparr>
         in if done then Inr (tr', wd')
            else if render then
              (case env_render env e' of
                 Inl e \<Rightarrow> Inl e
               | Inr e'' \<Rightarrow>
                   episode_loop env choice W1 W2 n_act render n st' tr'
                     (wd'\<lparr>env_state := e'', calls := calls wd' @ [EnvRender]\<rparr>))
            else episode_loop env choice W1 W2 n_act render n st' tr' wd')))"

text \<open>
  \<open>KPLearner.get_trajectory\<close>. \<open>range(n)\<close> is empty for \<open>n \<le> 0\<close>.
\<close>

definition get_trajectory ::
  "'e environment \<Rightarrow> 'r sampler \<Rightarrow> array2 \<Rightarrow> array2 \<Rightarrow> nat \<Rightarrow> int \<Rightarrow> bool
     \<Rightarrow> ('e, 'r) world \<Rightarrow> py_error + (trajectory \<times> ('e, 'r) world)" where
  "get_trajectory env choice W1 W2 n_act max_len render wd =
     (case env_reset env (env_state wd) of
        Inl e \<Rightarrow> Inl e
      | Inr (st, e') \<Rightarrow>
          episode_loop env choice W1 W2 n_act render (nat max_len) st empty_trajectory
            (wd\<lparr>env_state := e', calls := calls wd @ [EnvReset]\<rparr>))"

section \<open>The gradient of one episode\<close>

text \<open>
  Modelled from the spec: \<open>discount_rewards\<close> is imported from the module \<open>utils\<close>,
  which is not among the sources. The specification gives
  \<open>G_t = r_t + discount_factor * G_{t+1}\<close> for \<open>t\<close> from \<open>T-1\<close> down to 0, with
  \<open>G_T = 0\<close>.
\<close>

fun discount_rewards :: "npfloat list \<Rightarrow> npfloat \<Rightarrow> npfloat list" where
  "discount_rewards [] g = []"
| "discount_rewards (r # rs) g =
     (r + g * (case discount_rewards rs g of [] \<Rightarrow> 0 | G # _ \<Rightarrow> G)) # discount_rewards rs g"

text \<open>
  Lines 140 and 141 of \<open>learn\<close>: the mean is subtracted in place, then the result is
  divided in place by its standard deviation. Neither line tests the divisor.
\<close>

definition standardize :: "npfloat list \<Rightarrow> npfloat list" where
  "standardize d =
     (let centred = map (\<lambda>g. g - np_mean d) d
      in map (\<lambda>g. g / np_std centred) centred)"

text \<open>
  Lines 132 to 144 of \<open>learn\<close>. For an empty trajectory (which needs
  \<open>episode_max_length \<le> 0\<close>) the arrays are one-dimensional and empty, and with at
  least one action numpy raises a \<open>ValueError\<close> at the subtraction or in the backward
  pass; the model covers learners with at least one action.
\<close>

definition episode_gradient ::
  "array2 \<Rightarrow> nat \<Rightarrow> real \<Rightarrow> trajectory \<Rightarrow> py_error + (array2 \<times> array2)" where
  "episode_gradient W2 n_act gam tr =
     (if traj_reward tr = [] then Inl ValueError
      else
        (let action_taken =
               tabulate2 (length (traj_action tr)) n_act
                 (\<lambda>t a. if a = traj_action tr ! t then 1 else 0)
         in case broadcast2 (\<lambda>x y. x - y) action_taken (np_array (traj_prob tr)) of
              Inl e \<Rightarrow> Inl e
            | Inr epdlogp \<Rightarrow>
                (let discounted_episode_rewards =
                       standardize (discount_rewards (traj_reward tr) (Fin gam))
                 in case np_reshape (np_repeat discounted_episode_rewards n_act)
                           (length discounted_episode_rewards) n_act of
                      Inl e \<Rightarrow> Inl e
                    | Inr scaling \<Rightarrow>
                        (case inplace2 (\<lambda>x y. x * y) epdlogp scaling of
                           Inl e \<Rightarrow> Inl e
                         | Inr epdlogp' \<Rightarrow>
                             backward_step W2 (np_array (traj_state tr))
                               (np_array (traj_x1 tr)) epdlogp'))))"

section \<open>The training loop\<close>

text \<open>
  The entries of \<open>self.config\<close> that the modelled functions read. The three rates are
  finite floats, the three counts Python integers.
\<close>

record config =
  gamma :: real
  learning_rate :: real
  batch_size :: int
  decay_rate :: real
  draw_frequency :: int
  episode_max_length :: int

text \<open>
  The variables of \<open>learn\<close>, the two weight matrices of the learner, and the state of
  the collaborators. The methods of the \<open>Reporter\<close> are taken to return normally; their
  calls are logged.
\<close>

record ('e, 'r) learn_state =
  w1 :: array2
  w2 :: array2
  gradient1 :: array2
  gradient2 :: array2
  rmsprop1 :: array2
  rmsprop2 :: array2
  iteration :: int
  episode_nr :: int
  episode_lengths :: "npfloat list"
  episode_rewards :: "npfloat list"
  mean_rewards :: "npfloat list"
  world :: "('e, 'r) world"

text \<open>
  Lines 151 to 154 of \<open>learn\<close> for one weight matrix: the new cache
  \<open>decay_rate * rmsprop + (1 - decay_rate) * gradient**2\<close> and the weights after
  \<open>w += learning_rate * gradient / (np.sqrt(rmsprop) + 1e-5)\<close>.
\<close>

definition rmsprop_cache :: "config \<Rightarrow> array2 \<Rightarrow> array2 \<Rightarrow> py_error + array2" where
  "rmsprop_cache cfg cache grad =
     broadcast2 (\<lambda>x y. x + y)
       (map_array (\<lambda>v. Fin (decay_rate cfg) * v) cache)
       (map_array (\<lambda>g. Fin (1 - decay_rate cfg) * (g * g)) grad)"

definition rmsprop_step :: "config \<Rightarrow> array2 \<Rightarrow> array2 \<Rightarrow> array2 \<Rightarrow> py_error + array2" where
  "rmsprop_step cfg W cache grad =
     (case broadcast2 (\<lambda>x y. x / y)
             (map_array (\<lambda>g. Fin (learning_rate cfg) * g) grad)
             (map_array (\<lambda>v. np_sqrt v + Fin (1 / 100000)) cache) of
        Inl e \<Rightarrow> Inl e
      | Inr delta \<Rightarrow> inplace2 (\<lambda>x y. x + y) W delta)"

text \<open>Lines 150 to 160 of \<open>learn\<close>: the end of a batch.\<close>

definition batch_update ::
  "config \<Rightarrow> ('e, 'r) learn_state \<Rightarrow> py_error + ('e, 'r) learn_state" where
  "batch_update cfg s =
     (case rmsprop_cache cfg (rmsprop1 s) (gradient1 s) of
        Inl e \<Rightarrow> Inl e
      | Inr r1 \<Rightarrow>
     (case rmsprop_cache cfg (rmsprop2 s) (gradient2 s) of
        Inl e \<Rightarrow> Inl e
      | Inr r2 \<Rightarrow>
     (case rmsprop_step cfg (w1 s) r1 (gradient1 s) of
        Inl e \<Rightarrow> Inl e
      | Inr W1' \<Rightarrow>
     (case rmsprop_step cfg (w2 s) r2 (gradient2 s) of
        Inl e \<Rightarrow> Inl e
      | Inr W2' \<Rightarrow>
        (let it = iteration s + 1;
             report = PrintIterationStats it (episode_rewards s) (episode_lengths s)
                        (episode_nr s);
             means = mean_rewards s @ [np_mean (episode_rewards s)];
             s' = s\<lparr>iteration := it, rmsprop1 := r1, rmsprop2 := r2, w1 := W1', w2 := W2',
                    gradient1 := zeros_like W1', gradient2 := zeros_like W2',
                    mean_rewards := means\<rparr>
         in case py_mod (episode_nr s) (draw_frequency cfg) of
              Inl e \<Rightarrow> Inl e
            | Inr m \<Rightarrow>
                Inr (s'\<lparr>world := (world s)\<lparr>calls :=
                       calls (world s) @
                         (if m = 0 then [report, DrawRewards means] else [report])\<rparr>\<rparr>))))))"

text \<open>
  One pass of the \<open>while True\<close> loop of \<open>learn\<close>. The call
  \<open>self.get_trajectory(self.config["episode_max_length"])\<close> passes the episode length
  as the argument \<open>render\<close>, which is tested for truth: an integer is true when it is
  not zero.
\<close>

definition learn_body ::
  "'e environment \<Rightarrow> 'r sampler \<Rightarrow> config \<Rightarrow> nat \<Rightarrow> ('e, 'r) learn_state
     \<Rightarrow> py_error + ('e, 'r) learn_state" where
  "learn_body env choice cfg n_act s =
     (case get_trajectory env choice (w1 s) (w2 s) n_act (episode_max_length cfg)
             (episode_max_length cfg \<noteq> 0) (world s) of
        Inl e \<Rightarrow> Inl e
      | Inr (tr, wd) \<Rightarrow>
     (case py_mod (episode_nr s) (batch_size cfg) of
        Inl e \<Rightarrow> Inl e
      | Inr k \<Rightarrow>
     (case setitem (episode_rewards s) k (py_sum (traj_reward tr)) of
        Inl e \<Rightarrow> Inl e
      | Inr rewards' \<Rightarrow>
     (case setitem (episode_lengths s) k (Fin (real (length (traj_reward tr)))) of
        Inl e \<Rightarrow> Inl e
      | Inr lengths' \<Rightarrow>
     (case episode_gradient (w2 s) n_act (gamma cfg) tr of
        Inl e \<Rightarrow> Inl e
      | Inr (change_w1, change_w2) \<Rightarrow>
     (case inplace2 (\<lambda>x y. x + y) (gradient1 s) change_w1 of
        Inl e \<Rightarrow> Inl e
      | Inr g1 \<Rightarrow>
     (case inplace2 (\<lambda>x y. x + y) (gradient2 s) change_w2 of
        Inl e \<Rightarrow> Inl e
      | Inr g2 \<Rightarrow>
        (let s' = s\<lparr>episode_rewards := rewards', episode_lengths := lengths',
                    episode_nr := episode_nr s + 1, gradient1 := g1, gradient2 := g2,
                    world := wd\<rparr>
         in case py_mod (episode_nr s') (batch_size cfg) of
              Inl e \<Rightarrow> Inl e
            | Inr m \<Rightarrow> if m = 0 then batch_update cfg s' else Inr s'))))))))"

text \<open>
  Lines 113 to 125 of \<open>learn\<close>: the state before the first pass. \<open>np.zeros\<close> raises a
  \<open>ValueError\<close> for a negative length.
\<close>

definition learn_init ::
  "config \<Rightarrow> array2 \<Rightarrow> array2 \<Rightarrow> ('e, 'r) world \<Rightarrow> py_error + ('e, 'r) learn_state" where
  "learn_init cfg W1 W2 wd =
     (if batch_size cfg < 0 then Inl ValueError
      else Inr \<lparr>w1 = W1, w2 = W2,
                gradient1 = zeros_like W1, gradient2 = zeros_like W2,
                rmsprop1 = zeros_like W1, rmsprop2 = zeros_like W2,
                iteration = 0, episode_nr = 0,
                episode_lengths = replicate (nat (batch_size cfg)) 0,
                episode_rewards = replicate (nat (batch_size cfg)) 0,
                mean_rewards = [], world = wd\<rparr>)"

text \<open>
  The loop of \<open>learn\<close> has no exit. Its first \<open>n\<close> passes are the \<open>n\<close>-fold
  iteration of the body, which stops at the first exception.
\<close>

fun learn_passes ::
  "'e environment \<Rightarrow> 'r sampler \<Rightarrow> config \<Rightarrow> nat \<Rightarrow> nat \<Rightarrow> ('e, 'r) learn_state
     \<Rightarrow> py_error + ('e, 'r) learn_state" where
  "learn_passes env choice cfg n_act 0 s = Inr s"
| "learn_passes env choice cfg n_act (Suc n) s =
     (case learn_body env choice cfg n_act s of
        Inl e \<Rightarrow> Inl e
      | Inr s' \<Rightarrow> learn_passes env choice cfg n_act n s')"

section \<open>The forward pass in real arithmetic\<close>

text \<open>
  The forward pass as the specification words it, for a state \<open>s\<close> and weights
  \<open>a\<close> and \<open>b\<close> given by their real entries: the pre-activation \<open>state \<cdot> W1\<close>,
  \<open>hidden = max(0, state \<cdot> W1)\<close> and \<open>probabilities = sigmoid(hidden \<cdot> W2)\<close>, with
  \<open>H\<close> hidden units.
\<close>

definition spec_pre :: "real list \<Rightarrow> (nat \<Rightarrow> nat \<Rightarrow> real) \<Rightarrow> nat \<Rightarrow> real" where
  "spec_pre s a j = (\<Sum>k\<leftarrow>[0..<length s]. s ! k * a k j)"

definition spec_hidden :: "real list \<Rightarrow> (nat \<Rightarrow> nat \<Rightarrow> real) \<Rightarrow> nat \<Rightarrow> real" where
  "spec_hidden s a j = max 0 (spec_pre s a j)"

definition spec_probability ::
  "real list \<Rightarrow> (nat \<Rightarrow> nat \<Rightarrow> real) \<Rightarrow> (nat \<Rightarrow> nat \<Rightarrow> real) \<Rightarrow> nat \<Rightarrow> nat \<Rightarrow> real" where
  "spec_probability s a b H c =
     1 / (1 + exp (- (\<Sum>j\<leftarrow>[0..<H]. spec_hidden s a j * b j c)))"

text \<open>A two-dimensional array of finite floats, given by its real entries.\<close>

definition fin_array :: "nat \<Rightarrow> nat \<Rightarrow> (nat \<Rightarrow> nat \<Rightarrow> real) \<Rightarrow> array2" where
  "fin_array r c a = tabulate2 r c (\<lambda>i j. Fin (a i j))"

section \<open>The contract of the library's sampler\<close>

text \<open>
  A probability vector of length \<open>n\<close>: finite, non-negative entries that sum to 1.
\<close>

definition is_distribution :: "nat \<Rightarrow> npfloat list \<Rightarrow> bool" where
  "is_distribution n p =
     (length p = n \<and> list_all (\<lambda>x. is_finite x \<and> 0 \<le> x) p \<and> np_sum p = 1)"



text \<open>
  A sampler for the examples: it raises a \<open>ValueError\<close> on what is not a probability
  vector of length \<open>n\<close>, as the library does, and returns the first index otherwise.
\<close>

definition first_index_sampler :: "unit sampler" where
  "first_index_sampler rng n p = (if is_distribution n p then Inr (0, rng) else Inl ValueError)"

text \<open>The scores of the forward pass in real arithmetic, for \<open>A\<close> actions.\<close>

definition spec_scores ::
  "real list \<Rightarrow> (nat \<Rightarrow> nat \<Rightarrow> real) \<Rightarrow> (nat \<Rightarrow> nat \<Rightarrow> real) \<Rightarrow> nat \<Rightarrow> nat \<Rightarrow> real list" where
  "spec_scores s a b H A = map (\<lambda>c. spec_probability s a b H c) [0..<A]"

text \<open>The linear renormalization of the specification: each score divided by the sum.\<close>

definition spec_normalized :: "real list \<Rightarrow> real list" where
  "spec_normalized xs = map (\<lambda>p. p / sum_list xs) xs"

section \<open>Reading the log of calls\<close>

fun is_step :: "call \<Rightarrow> bool" where
  "is_step (EnvStep a d) = True"
| "is_step _ = False"

fun is_render :: "call \<Rightarrow> bool" where
  "is_render EnvRender = True"
| "is_render _ = False"

fun is_draw :: "call \<Rightarrow> bool" where
  "is_draw (DrawRewards m) = True"
| "is_draw _ = False"

definition count_steps :: "call list \<Rightarrow> nat" where
  "count_steps cs = length (filter is_step cs)"

definition count_renders :: "call list \<Rightarrow> nat" where
  "count_renders cs = length (filter is_render cs)"

definition count_draws :: "call list \<Rightarrow> nat" where
  "count_draws cs = length (filter is_draw cs)"

text \<open>The \<open>done\<close> flags that the steps of a log returned, in order.\<close>

fun step_flags :: "call list \<Rightarrow> bool list" where
  "step_flags [] = []"
| "step_flags (EnvStep a d # cs) = d # step_flags cs"
| "step_flags (c # cs) = step_flags cs"

text \<open>
  The calls of one episode after the reset, for the actions taken and the flags returned:
  each step, followed by a rendering call when rendering is on and the step did not end
  the episode.
\<close>

fun episode_calls :: "bool \<Rightarrow> nat list \<Rightarrow> bool list \<Rightarrow> call list" where
  "episode_calls render (a # as) (d # ds) =
     EnvStep a d # (if render \<and> \<not> d then [EnvRender] else []) @ episode_calls render as ds"
| "episode_calls render _ _ = []"

text \<open>
  Two environments for the examples. Both return the observation \<open>[1, 0]\<close> and count
  their steps. The first pays the reward 2 for its first step and 0 afterwards, ends the
  episode at its second step and renders without failing; the second pays the reward 1,
  never ends the episode, and its rendering raises.
\<close>

definition two_step_env :: "nat environment" where
  "two_step_env =
     \<lparr>env_reset = (\<lambda>e. Inr ([Fin 1, Fin 0], 0)),
      env_step =
        (\<lambda>e a. Inr (([Fin 1, Fin 0], Fin (if e = 0 then 2 else 0), Suc e = 2), Suc e)),
      env_render = (\<lambda>e. Inr e)\<rparr>"

definition failing_render_env :: "nat environment" where
  "failing_render_env =
     \<lparr>env_reset = (\<lambda>e. Inr ([Fin 1, Fin 0], 0)),
      env_step = (\<lambda>e a. Inr (([Fin 1, Fin 0], Fin 1, False), Suc e)),
      env_render = (\<lambda>e. Inl CollaboratorError)\<rparr>"

text \<open>
  The weights of the examples: two inputs, one hidden unit, two actions; the weights into
  the hidden unit are 1, those out of it 0, so that on the observation \<open>[1, 0]\<close> the
  hidden activation is 1 and both scores are \<open>sigmoid 0 = 1 / 2\<close>.
\<close>

definition example_w1 :: array2 where
  "example_w1 = \<lparr>nrows = 2, ncols = 1, rows = [[Fin 1], [Fin 1]]\<rparr>"

definition example_w2 :: array2 where
  "example_w2 = \<lparr>nrows = 1, ncols = 2, rows = [[Fin 0, Fin 0]]\<rparr>"

definition start_world :: "(nat, unit) world" where
  "start_world = \<lparr>env_state = 0, rng_state = (), calls = []\<rparr>"

section \<open>Returns and their standardization in real arithmetic\<close>

text \<open>
  The discounted returns of the specification for real rewards,
  \<open>G_t = r_t + discount_factor * G_{t+1}\<close> with \<open>G_T = 0\<close>, and the mean and the
  standard deviation of a vector.
\<close>

fun spec_returns :: "real list \<Rightarrow> real \<Rightarrow> real list" where
  "spec_returns [] g = []"
| "spec_returns (r # rs) g =
     (r + g * (case spec_returns rs g of [] \<Rightarrow> 0 | G # _ \<Rightarrow> G)) # spec_returns rs g"

definition spec_mean :: "real list \<Rightarrow> real" where
  "spec_mean xs = sum_list xs / real (length xs)"

definition spec_std :: "real list \<Rightarrow> real" where
  "spec_std xs = sqrt (spec_mean (map (\<lambda>x. (x - spec_mean xs)\<^sup>2) xs))"

text \<open>
  The standardized returns: the mean subtracted, the result divided by the standard
  deviation. The division is the one of floats, which yields a NaN for \<open>0 / 0\<close>.
\<close>

definition spec_standardized :: "real list \<Rightarrow> npfloat list" where
  "spec_standardized G = map (\<lambda>g. Fin (g - spec_mean G) / Fin (spec_std G)) G"

text \<open>
  The error signal of the specification for a trajectory with the real rewards \<open>rs\<close>:
  row \<open>t\<close> is the one-hot encoding of the action taken minus the recorded probabilities,
  scaled by the standardized return of step \<open>t\<close>.
\<close>

definition spec_error_signal :: "nat \<Rightarrow> real \<Rightarrow> trajectory \<Rightarrow> real list \<Rightarrow> array2" where
  "spec_error_signal n_act gam tr rs =
     tabulate2 (length rs) n_act
       (\<lambda>t a. ((if a = traj_action tr ! t then 1 else 0) - traj_prob tr ! t ! a) *
              spec_standardized (spec_returns rs gam) ! t)"

text \<open>
  The trajectory of one step that the collector returns for the example weights: reward 1,
  observation \<open>[1, 0]\<close>, action 0, probabilities \<open>[1 / 2, 1 / 2]\<close>, hidden activation 1.
\<close>

definition one_step_trajectory :: trajectory where
  "one_step_trajectory =
     \<lparr>traj_reward = [Fin 1], traj_state = [[Fin 1, Fin 0]], traj_action = [0],
      traj_prob = [[Fin (1 / 2), Fin (1 / 2)]], traj_x1 = [[Fin 1]]\<rparr>"

text \<open>
  A trajectory of two steps with the rewards 2 and 0, in which action 0 and then action 1
  was taken.
\<close>

definition two_step_trajectory :: trajectory where
  "two_step_trajectory =
     \<lparr>traj_reward = [Fin 2, Fin 0], traj_state = [[Fin 1, Fin 0], [Fin 1, Fin 0]],
      traj_action = [0, 1],
      traj_prob = [[Fin (1 / 2), Fin (1 / 2)], [Fin (1 / 2), Fin (1 / 2)]],
      traj_x1 = [[Fin 1], [Fin 1]]\<rparr>"

section \<open>The update of a batch, entry by entry\<close>

text \<open>
  The update of the specification for one weight matrix:
  \<open>cache = decay_rate * cache + (1 - decay_rate) * gradient\<^sup>2\<close> and
  \<open>W += learning_rate * gradient / (sqrt(cache) + 1e-5)\<close>.
\<close>

definition spec_cache :: "config \<Rightarrow> array2 \<Rightarrow> array2 \<Rightarrow> array2" where
  "spec_cache cfg cache grad =
     tabulate2 (nrows cache) (ncols cache)
       (\<lambda>i j. Fin (decay_rate cfg) * ent cache i j +
              Fin (1 - decay_rate cfg) * (ent grad i j * ent grad i j))"

definition spec_weights :: "config \<Rightarrow> array2 \<Rightarrow> array2 \<Rightarrow> array2 \<Rightarrow> array2" where
  "spec_weights cfg W cache grad =
     tabulate2 (nrows W) (ncols W)
       (\<lambda>i j. ent W i j +
              Fin (learning_rate cfg) * ent grad i j /
                (np_sqrt (ent cache i j) + Fin (1 / 100000)))"

text \<open>
  The accumulators and the caches have the shapes of the weight matrices. \<open>learn\<close>
  creates them so with \<open>np.zeros_like\<close>.
\<close>

definition same_shape :: "array2 \<Rightarrow> array2 \<Rightarrow> bool" where
  "same_shape A B = (nrows A = nrows B \<and> ncols A = ncols B)"

definition state_shapes :: "('e, 'r) learn_state \<Rightarrow> bool" where
  "state_shapes s =
     (same_shape (gradient1 s) (w1 s) \<and> same_shape (rmsprop1 s) (w1 s) \<and>
      same_shape (gradient2 s) (w2 s) \<and> same_shape (rmsprop2 s) (w2 s))"

text \<open>
  The default configuration of \<open>KPLearner\<close>, with episodes of at most 200 steps: batches
  of 10 episodes, \<open>draw_frequency = 50\<close>.
\<close>

definition default_config :: config where
  "default_config =
     \<lparr>gamma = 99 / 100, learning_rate = 5 / 100, batch_size = 10, decay_rate = 99 / 100,
      draw_frequency = 50, episode_max_length = 200\<rparr>"

text \<open>
  The state of \<open>learn\<close> in which the fiftieth episode reaches the end of its batch,
  for a network with a single weight in each layer: four batches are done, the
  accumulators and caches are zero.
\<close>

definition one_by_one :: "real \<Rightarrow> array2" where
  "one_by_one x = \<lparr>nrows = 1, ncols = 1, rows = [[Fin x]]\<rparr>"

definition fiftieth_episode_state :: "(nat, unit) learn_state" where
  "fiftieth_episode_state =
     \<lparr>w1 = one_by_one 1, w2 = one_by_one 1,
      gradient1 = one_by_one 0, gradient2 = one_by_one 0,
      rmsprop1 = one_by_one 0, rmsprop2 = one_by_one 0,
      iteration = 4, episode_nr = 50,
      episode_lengths = replicate 10 (Fin 1), episode_rewards = replicate 10 (Fin 1),
      mean_rewards = [Fin 1, Fin 1, Fin 1, Fin 1], world = start_world\<rparr>"

text \<open>
  A sampler that goes round the indices of a probability vector and raises a
  \<open>ValueError\<close> on anything else: the state of the random source is a counter. And
  a configuration with batches of one episode of at most two steps, with the state of
  \<open>learn\<close> before its first pass for the example weights and the first environment.
\<close>

definition round_sampler :: "nat sampler" where
  "round_sampler rng n p =
     (if is_distribution n p then Inr (rng mod n, Suc rng) else Inl ValueError)"

definition small_config :: config where
  "small_config =
     \<lparr>gamma = 99 / 100, learning_rate = 5 / 100, batch_size = 1, decay_rate = 99 / 100,
      draw_frequency = 1, episode_max_length = 2\<rparr>"

definition first_pass_state :: "(nat, nat) learn_state" where
  "first_pass_state =
     \<lparr>w1 = example_w1, w2 = example_w2,
      gradient1 = zeros_like example_w1, gradient2 = zeros_like example_w2,
      rmsprop1 = zeros_like example_w1, rmsprop2 = zeros_like example_w2,
      iteration = 0, episode_nr = 0,
      episode_lengths = [Fin 0], episode_rewards = [Fin 0],
      mean_rewards = [], world = \<lparr>env_state = 0, rng_state = 0, calls = []\<rparr>\<rparr>"

text \<open>The state after the first pass from \<open>first_pass_state\<close>.\<close>

definition after_first_pass :: "(nat, nat) learn_state" where
  "after_first_pass =
     \<lparr>w1 = example_w1,
      w2 = \<lparr>nrows = 1, ncols = 2, rows = [[Fin (5000 / 10001), Fin (- (5000 / 10001))]]\<rparr>,
      gradient1 = \<lparr>nrows = 2, ncols = 1, rows = [[Fin 0], [Fin 0]]\<rparr>,
      gradient2 = \<lparr>nrows = 1, ncols = 2, rows = [[Fin 0, Fin 0]]\<rparr>,
      rmsprop1 = \<lparr>nrows = 2, ncols = 1, rows = [[Fin 0], [Fin 0]]\<rparr>,
      rmsprop2 = \<lparr>nrows = 1, ncols = 2, rows = [[Fin (1 / 100), Fin (1 / 100)]]\<rparr>,
      iteration = 1, episode_nr = 1,
      episode_lengths = [Fin 2], episode_rewards = [Fin 2],
      mean_rewards = [Fin 2],
      world = \<lparr>env_state = 2, rng_state = 2,
                calls = [EnvReset, EnvStep 0 False, EnvRender, EnvStep 1 True,
                         PrintIterationStats 1 [Fin 2] [Fin 2] 1, DrawRewards [Fin 2]]\<rparr>\<rparr>"

section \<open>Basic facts about arrays\<close>

lemma nrows_tabulate2 [simp]: "nrows (tabulate2 r c f) = r"
  by (simp add: tabulate2_def)

lemma ncols_tabulate2 [simp]: "ncols (tabulate2 r c f) = c"
  by (simp add: tabulate2_def)

lemma ent_tabulate2 [simp]: "i < r \<Longrightarrow> j < c \<Longrightarrow> ent (tabulate2 r c f) i j = f i j"
  by (simp add: tabulate2_def ent_def)

lemma tabulate2_cong:
  assumes "\<And>i j. i < r \<Longrightarrow> j < c \<Longrightarrow> f i j = g i j"
  shows "tabulate2 r c f = tabulate2 r c g"
  using assms by (simp add: tabulate2_def)

lemma wf_tabulate2 [simp]: "wf_array (tabulate2 r c f)"
  by (simp add: wf_array_def tabulate2_def list_all_iff)

lemma np_sum_cong:
  assumes "\<And>k. k < n \<Longrightarrow> f k = g k"
  shows "np_sum (map f [0..<n]) = np_sum (map g [0..<n])"
proof -
  have "map f [0..<n] = map g [0..<n]"
    using assms by simp
  then show ?thesis by (simp only:)
qed

section \<open>The backward pass\<close>

lemma backward_step_eq:
  assumes "nrows h = nrows x0"
    and "nrows feedback = nrows x0"
    and "ncols feedback = ncols W2"
    and "ncols h = nrows W2"
  shows "backward_step W2 x0 h feedback =
           Inr (spec_grad_W1 W2 x0 h feedback, spec_grad_W2 h feedback)"
proof -
  have c2: "np_dot (transpose_a h) feedback = Inr (spec_grad_W2 h feedback)"
    unfolding np_dot_def spec_grad_W2_def transpose_a_def using assms
    by (auto intro!: tabulate2_cong np_sum_cong)
  define dh where "dh = tabulate2 (nrows feedback) (nrows W2)
      (\<lambda>i j. np_sum (map (\<lambda>k. ent feedback i k * ent W2 j k) [0..<ncols feedback]))"
  have d1: "np_dot feedback (transpose_a W2) = Inr dh"
    unfolding np_dot_def transpose_a_def dh_def using assms
    by (auto intro!: tabulate2_cong np_sum_cong)
  define dh' where "dh' = tabulate2 (nrows x0) (nrows W2) (spec_dh W2 h feedback)"
  have d2: "mask_le_zero dh h = Inr dh'"
    unfolding mask_le_zero_def dh_def dh'_def spec_dh_def using assms
    by (auto intro!: tabulate2_cong)
  have c1: "np_dot (transpose_a x0) dh' = Inr (spec_grad_W1 W2 x0 h feedback)"
    unfolding np_dot_def spec_grad_W1_def transpose_a_def dh'_def using assms
    by (auto intro!: tabulate2_cong np_sum_cong)
  show ?thesis
    by (simp add: backward_step_def c2 d1 d2 c1)
qed

text \<open>
  C1. For an input batch, a batch of recorded hidden activations and an error signal of
  consistent shapes (the same number of rows; the error signal as wide as \<open>W2\<close>; the hidden
  batch as wide as \<open>W2\<close> is high), the backward pass raises nothing and returns the pair
  of \<open>grad_W1\<close> and \<open>grad_W2\<close> of the specification. The mask is read from the
  hidden batch that is passed in: \<open>W1\<close> is not an argument, so nothing is recomputed.
\<close>

theorem backward_step_spec:
  assumes "nrows h = nrows x0"
    and "nrows feedback = nrows x0"
    and "ncols feedback = ncols W2"
    and "ncols h = nrows W2"
  shows "backward_step W2 x0 h feedback =
           Inr (spec_grad_W1 W2 x0 h feedback, spec_grad_W2 h feedback)"
  using assms by (rule backward_step_eq)

text \<open>
  The backward pass on a trajectory of one step with two inputs, one hidden unit and two
  actions.
\<close>

theorem backward_step_spec_witness:
  "backward_step
     \<lparr>nrows = 1, ncols = 2, rows = [[Fin 1, Fin 1]]\<rparr>
     \<lparr>nrows = 1, ncols = 2, rows = [[Fin 1, Fin 0]]\<rparr>
     \<lparr>nrows = 1, ncols = 1, rows = [[Fin 1]]\<rparr>
     \<lparr>nrows = 1, ncols = 2, rows = [[Fin (1 / 2), Fin (1 / 4)]]\<rparr>
   = Inr (\<lparr>nrows = 2, ncols = 1, rows = [[Fin (3 / 4)], [Fin 0]]\<rparr>,
          \<lparr>nrows = 1, ncols = 2, rows = [[Fin (1 / 2), Fin (1 / 4)]]\<rparr>)"
  using backward_step_spec
    [of "\<lparr>nrows = 1, ncols = 1, rows = [[Fin 1]]\<rparr>"
        "\<lparr>nrows = 1, ncols = 2, rows = [[Fin 1, Fin 0]]\<rparr>"
        "\<lparr>nrows = 1, ncols = 2, rows = [[Fin (1 / 2), Fin (1 / 4)]]\<rparr>"
        "\<lparr>nrows = 1, ncols = 2, rows = [[Fin 1, Fin 1]]\<rparr>"]
  by (simp add: spec_grad_W1_def spec_grad_W2_def spec_dh_def tabulate2_def ent_def np_sum_def
        zero_npfloat_def upt_conv_Cons)

section \<open>Sums and dot products of finite floats\<close>

lemma np_sum_Nil [simp]: "np_sum [] = Fin 0"
  by (simp add: np_sum_def zero_npfloat_def)

lemma np_sum_Cons [simp]: "np_sum (x # xs) = x + np_sum xs"
  by (simp add: np_sum_def)

lemma np_sum_Fin: "np_sum (map (\<lambda>k. Fin (f k)) xs) = Fin (\<Sum>k\<leftarrow>xs. f k)"
  by (induction xs) simp_all

lemma np_sum_upt_Fin:
  assumes "\<And>k. k < n \<Longrightarrow> g k = Fin (f k)"
  shows "np_sum (map g [0..<n]) = Fin (\<Sum>k\<leftarrow>[0..<n]. f k)"
proof -
  have "map g [0..<n] = map (\<lambda>k. Fin (f k)) [0..<n]"
    using assms by simp
  then show ?thesis
    by (simp only: np_sum_Fin)
qed

lemma relu_Fin: "(if Fin p < 0 then 0 else Fin p) = Fin (max 0 p)"
  by (simp add: zero_npfloat_def max_def)

lemma sigmoid_Fin: "1 / (1 + Fin (exp y)) = Fin (1 / (1 + exp y))"
proof -
  have "1 + exp y \<noteq> 0"
    using exp_gt_zero [of y] by linarith
  then show ?thesis
    by (simp add: one_npfloat_def)
qed

lemma np_dot_vec_Fin:
  assumes "length s = r"
  shows "np_dot_vec (map Fin s) (fin_array r c a) =
           Inr (map (\<lambda>j. Fin (\<Sum>k\<leftarrow>[0..<r]. s ! k * a k j)) [0..<c])"
  using assms by (auto simp: np_dot_vec_def fin_array_def intro!: np_sum_upt_Fin)

section \<open>The forward pass\<close>

lemma forward_step_Fin:
  assumes "length s = n"
  shows "forward_step (fin_array n H a) (fin_array H A b) (map Fin s) =
         Inr (map (\<lambda>j. Fin (spec_hidden s a j)) [0..<H],
              map (\<lambda>c. Fin (spec_probability s a b H c)) [0..<A])"
proof -
  have pre: "np_dot_vec (map Fin s) (fin_array n H a) =
      Inr (map (\<lambda>j. Fin (spec_pre s a j)) [0..<H])"
    using assms by (simp add: np_dot_vec_Fin spec_pre_def)
  have h: "map (\<lambda>v. if v < 0 then 0 else v) (map (\<lambda>j. Fin (spec_pre s a j)) [0..<H]) =
      map Fin (map (\<lambda>j. spec_hidden s a j) [0..<H])"
    by (simp add: relu_Fin spec_hidden_def)
  define hs where "hs = map (\<lambda>j. spec_hidden s a j) [0..<H]"
  have len: "length hs = H"
    by (simp add: hs_def)
  have sums: "(\<Sum>j\<leftarrow>[0..<H]. hs ! j * b j c) = (\<Sum>j\<leftarrow>[0..<H]. spec_hidden s a j * b j c)"
    for c
    by (rule arg_cong [where f = sum_list]) (simp add: hs_def)
  have z: "np_dot_vec (map Fin hs) (fin_array H A b) =
      Inr (map (\<lambda>c. Fin (\<Sum>j\<leftarrow>[0..<H]. spec_hidden s a j * b j c)) [0..<A])"
    by (simp only: np_dot_vec_Fin [OF len] sums)
  show ?thesis
    unfolding forward_step_def pre
    apply (simp add: h z [unfolded hs_def] Let_def del: map_map)
    apply (simp add: sigmoid_def sigmoid_Fin spec_probability_def comp_def)
    done
qed

text \<open>
  C4. For a state of the observation dimension and finite weights, the forward pass raises
  nothing and returns \<open>hidden = max(0, state \<cdot> W1)\<close> and
  \<open>probabilities = sigmoid(hidden \<cdot> W2)\<close>, entry by entry; when every pre-activation
  is negative, the hidden vector it returns is all zeros. The function returns these two
  vectors and nothing else: it has the weights as arguments and no weights among its
  results, as the source assigns neither \<open>self.w1\<close> nor \<open>self.w2\<close>.
\<close>

theorem forward_step_relu_sigmoid:
  assumes "length s = n"
  shows "forward_step (fin_array n H a) (fin_array H A b) (map Fin s) =
           Inr (map (\<lambda>j. Fin (spec_hidden s a j)) [0..<H],
                map (\<lambda>c. Fin (spec_probability s a b H c)) [0..<A]) \<and>
         ((\<forall>j<H. spec_pre s a j < 0) \<longrightarrow>
            fst (projr (forward_step (fin_array n H a) (fin_array H A b) (map Fin s))) =
              replicate H (Fin 0))"
proof -
  have "map (\<lambda>j. Fin (spec_hidden s a j)) [0..<H] = replicate H (Fin 0)"
    if "\<forall>j<H. spec_pre s a j < 0"
    using that by (auto simp: list_eq_iff_nth_eq spec_hidden_def max_def)
  then show ?thesis
    by (simp add: forward_step_Fin [OF assms])
qed

text \<open>
  Two inputs, one hidden unit, two actions; the weights into the hidden unit are \<open>-1\<close>
  and \<open>1\<close> and the state is \<open>[1, 0]\<close>, so the pre-activation is \<open>-1\<close>, the hidden
  activation 0 and each score \<open>sigmoid 0 = 1 / 2\<close>.
\<close>

theorem forward_step_relu_sigmoid_witness:
  "spec_pre [1, 0] (\<lambda>k j. if k = 0 then - 1 else 1) 0 = - 1 \<and>
   forward_step \<lparr>nrows = 2, ncols = 1, rows = [[Fin (- 1)], [Fin 1]]\<rparr>
     \<lparr>nrows = 1, ncols = 2, rows = [[Fin 1, Fin 1]]\<rparr> [Fin 1, Fin 0] =
   Inr ([Fin 0], [Fin (1 / 2), Fin (1 / 2)]) \<and>
   fst (projr (forward_step \<lparr>nrows = 2, ncols = 1, rows = [[Fin (- 1)], [Fin 1]]\<rparr>
     \<lparr>nrows = 1, ncols = 2, rows = [[Fin 1, Fin 1]]\<rparr> [Fin 1, Fin 0])) = replicate 1 (Fin 0)"
proof -
  let ?a = "\<lambda>k j :: nat. if k = 0 then - 1 else 1 :: real"
  let ?b = "\<lambda>j c :: nat. 1 :: real"
  have neg: "\<forall>j<1. spec_pre [1, 0] ?a j < 0"
    by (simp add: spec_pre_def upt_conv_Cons)
  have "forward_step (fin_array 2 1 ?a) (fin_array 1 2 ?b) (map Fin [1, 0]) =
        Inr (map (\<lambda>j. Fin (spec_hidden [1, 0] ?a j)) [0..<1],
             map (\<lambda>c. Fin (spec_probability [1, 0] ?a ?b 1 c)) [0..<2]) \<and>
        fst (projr (forward_step (fin_array 2 1 ?a) (fin_array 1 2 ?b) (map Fin [1, 0]))) =
          replicate 1 (Fin 0)"
    using forward_step_relu_sigmoid [of "[1, 0]" 2 1 ?a 2 ?b] neg
    by (simp add: spec_hidden_def)
  then show ?thesis
    by (simp add: fin_array_def tabulate2_def spec_hidden_def spec_probability_def spec_pre_def
          upt_conv_Cons)
qed

section \<open>The action sampler\<close>

lemma sum_list_pos_real:
  fixes xs :: "real list"
  assumes "xs \<noteq> []" and "\<forall>x\<in>set xs. 0 < x"
  shows "0 < sum_list xs"
  using assms
proof (induction xs)
  case Nil
  then show ?case by simp
next
  case (Cons x xs)
  show ?case
  proof (cases "xs = []")
    case True
    with Cons.prems show ?thesis by simp
  next
    case False
    with Cons have "0 < sum_list xs" by simp
    with Cons.prems show ?thesis by simp
  qed
qed

lemma sum_list_divide_real: "(\<Sum>p\<leftarrow>xs. p / c) = sum_list xs / (c :: real)"
  by (induction xs) (simp_all add: add_divide_distrib)

lemma sum_list_spec_normalized:
  assumes "sum_list xs \<noteq> 0"
  shows "sum_list (spec_normalized xs) = 1"
  using assms by (simp add: spec_normalized_def sum_list_divide_real)

lemma normalize_Fin:
  assumes "sum_list xs \<noteq> 0"
  shows "map (\<lambda>v. v / np_sum (map Fin xs)) (map Fin xs) = map Fin (spec_normalized xs)"
proof -
  have "np_sum (map Fin xs) = Fin (sum_list xs)"
    using np_sum_Fin [of "\<lambda>x. x" xs] by simp
  with assms show ?thesis
    by (simp add: spec_normalized_def)
qed

lemma is_distribution_normalized:
  assumes "xs \<noteq> []" and "\<forall>x\<in>set xs. 0 < x"
  shows "is_distribution (length xs) (map Fin (spec_normalized xs))"
proof -
  have pos: "0 < sum_list xs"
    using assms by (rule sum_list_pos_real)
  have "np_sum (map Fin (spec_normalized xs)) = Fin (sum_list (spec_normalized xs))"
    using np_sum_Fin [of "\<lambda>x. x" "spec_normalized xs"] by simp
  then have one: "np_sum (map Fin (spec_normalized xs)) = 1"
    using pos by (simp add: sum_list_spec_normalized one_npfloat_def)
  have "list_all (\<lambda>x. is_finite x \<and> 0 \<le> x) (map Fin (spec_normalized xs))"
    using assms pos
    by (auto simp: list_all_iff spec_normalized_def zero_npfloat_def intro!: divide_nonneg_pos less_imp_le)
  with one show ?thesis
    by (simp add: is_distribution_def spec_normalized_def)
qed

lemma random_with_probability_Fin:
  assumes "sum_list xs \<noteq> 0"
  shows "random_with_probability choice (map Fin xs) n rng =
           (case choice rng n (map Fin (spec_normalized xs)) of
              Inl e \<Rightarrow> Inl e
            | Inr (act, rng') \<Rightarrow> Inr ((act, map Fin (spec_normalized xs)), rng'))"
  unfolding random_with_probability_def Let_def normalize_Fin [OF assms] ..

lemma spec_probability_bounds: "0 < spec_probability s a b H c \<and> spec_probability s a b H c < 1"
proof -
  have "0 < exp y" for y :: real by simp
  then show ?thesis
    by (simp add: spec_probability_def add_pos_pos)
qed









text \<open>
  C10. For finite weights, a finite state of the observation dimension and at least one
  action, the scores that \<open>choose_action\<close> passes to the sampler are values of the
  logistic sigmoid: each lies strictly between 0 and 1 and their sum is positive. The
  division by the sum is therefore a division of finite floats by a positive one: the
  probabilities handed to the library's sampler are the finite quotients and form a
  probability vector, none of them a NaN.
\<close>

theorem choose_action_scores_positive:
  assumes "length s = n" and "0 < A"
  shows "(\<forall>p\<in>set (spec_scores s a b H A). 0 < p \<and> p < 1) \<and>
         0 < sum_list (spec_scores s a b H A) \<and>
         forward_step (fin_array n H a) (fin_array H A b) (map Fin s) =
           Inr (map (\<lambda>j. Fin (spec_hidden s a j)) [0..<H], map Fin (spec_scores s a b H A)) \<and>
         np_sum (map Fin (spec_scores s a b H A)) = Fin (sum_list (spec_scores s a b H A)) \<and>
         is_distribution A (map Fin (spec_normalized (spec_scores s a b H A))) \<and>
         choose_action choice (fin_array n H a) (fin_array H A b) A (map Fin s) rng =
           (case choice rng A (map Fin (spec_normalized (spec_scores s a b H A))) of
              Inl e \<Rightarrow> Inl e
            | Inr (act, rng') \<Rightarrow>
                Inr ((act, map Fin (spec_normalized (spec_scores s a b H A)),
                      map (\<lambda>j. Fin (spec_hidden s a j)) [0..<H]), rng'))"
proof -
  let ?sc = "spec_scores s a b H A"
  have bounds: "\<forall>p\<in>set ?sc. 0 < p \<and> p < 1"
    by (auto simp: spec_scores_def spec_probability_bounds)
  have ne: "?sc \<noteq> []"
    using assms(2) by (simp add: spec_scores_def)
  have pos: "0 < sum_list ?sc"
    using ne bounds by (intro sum_list_pos_real) auto
  have fwd: "forward_step (fin_array n H a) (fin_array H A b) (map Fin s) =
           Inr (map (\<lambda>j. Fin (spec_hidden s a j)) [0..<H], map Fin ?sc)"
    by (simp add: forward_step_Fin [OF assms(1)] spec_scores_def comp_def)
  have sum: "np_sum (map Fin ?sc) = Fin (sum_list ?sc)"
    using np_sum_Fin [of "\<lambda>x. x" ?sc] by simp
  have dist: "is_distribution A (map Fin (spec_normalized ?sc))"
    using is_distribution_normalized [OF ne] bounds by (simp add: spec_scores_def)
  have act: "choose_action choice (fin_array n H a) (fin_array H A b) A (map Fin s) rng =
           (case choice rng A (map Fin (spec_normalized ?sc)) of
              Inl e \<Rightarrow> Inl e
            | Inr (act, rng') \<Rightarrow>
                Inr ((act, map Fin (spec_normalized ?sc),
                      map (\<lambda>j. Fin (spec_hidden s a j)) [0..<H]), rng'))"
    using pos
    by (simp add: choose_action_def fwd random_with_probability_Fin split: sum.splits prod.splits)
  from bounds pos fwd sum dist act show ?thesis
    by blast
qed

theorem choose_action_scores_positive_witness:
  "length [1, 0 :: real] = 2 \<and> 0 < (2 :: nat) \<and>
   spec_scores [1, 0] (\<lambda>k j. if k = 0 then - 1 else 1) (\<lambda>j c. 1) 1 2 = [1 / 2, 1 / 2] \<and>
   choose_action first_index_sampler \<lparr>nrows = 2, ncols = 1, rows = [[Fin (- 1)], [Fin 1]]\<rparr>
     \<lparr>nrows = 1, ncols = 2, rows = [[Fin 1, Fin 1]]\<rparr> 2 [Fin 1, Fin 0] () =
   Inr ((0, [Fin (1 / 2), Fin (1 / 2)], [Fin 0]), ())"
proof -
  have sc: "spec_scores [1, 0] (\<lambda>k j. if k = 0 then - 1 else 1) (\<lambda>j c. 1) 1 2 = [1 / 2, 1 / 2]"
    by (simp add: spec_scores_def spec_probability_def spec_hidden_def spec_pre_def
          upt_conv_Cons)
  have sc': "spec_scores [1, 0] (\<lambda>k j. if k = 0 then - 1 else 1) (\<lambda>j c. 1) (Suc 0) 2 =
      [1 / 2, 1 / 2]"
    using sc by simp
  show ?thesis
    using choose_action_scores_positive
      [of "[1, 0]" 2 2 "\<lambda>k j. if k = 0 then - 1 else 1" "\<lambda>j c. 1" 1 first_index_sampler "()"]
    by (simp add: sc' first_index_sampler_def spec_normalized_def spec_hidden_def spec_pre_def
          fin_array_def tabulate2_def upt_conv_Cons)
qed

section \<open>The trajectory collector\<close>

lemma count_steps_append [simp]: "count_steps (xs @ ys) = count_steps xs + count_steps ys"
  by (simp add: count_steps_def)

lemma count_renders_append [simp]:
  "count_renders (xs @ ys) = count_renders xs + count_renders ys"
  by (simp add: count_renders_def)

lemma count_draws_append [simp]: "count_draws (xs @ ys) = count_draws xs + count_draws ys"
  by (simp add: count_draws_def)

lemma step_flags_append [simp]: "step_flags (xs @ ys) = step_flags xs @ step_flags ys"
  by (induction xs rule: step_flags.induct) simp_all

lemma count_steps_episode_calls:
  "length acts = length fl \<Longrightarrow> count_steps (episode_calls render acts fl) = length fl"
  by (induction render acts fl rule: episode_calls.induct) (simp_all add: count_steps_def)

lemma step_flags_episode_calls:
  "length acts = length fl \<Longrightarrow> step_flags (episode_calls render acts fl) = fl"
  by (induction render acts fl rule: episode_calls.induct) simp_all

lemma count_renders_episode_calls:
  "length acts = length fl \<Longrightarrow>
     count_renders (episode_calls render acts fl) =
       (if render then length (filter Not fl) else 0)"
  by (induction render acts fl rule: episode_calls.induct) (simp_all add: count_renders_def)

lemma count_draws_episode_calls: "count_draws (episode_calls render acts fl) = 0"
  by (induction render acts fl rule: episode_calls.induct) (simp_all add: count_draws_def)

text \<open>
  What the loop has done when it returns: it has taken \<open>k\<close> steps, at most the number
  of iterations it was given, appended one entry per step to each of the five lists, and
  logged the calls of these steps. Only the last step can have ended the episode, and the
  loop stops before its last iteration only when a step ended the episode.
\<close>

lemma episode_loop_result:
  assumes "episode_loop env choice W1 W2 n_act render n st tr wd = Inr (tr', wd')"
  shows "\<exists>rews sts acts probs hs fl.
           length rews = length fl \<and> length sts = length fl \<and> length acts = length fl \<and>
           length probs = length fl \<and> length hs = length fl \<and> length fl \<le> n \<and>
           traj_reward tr' = traj_reward tr @ rews \<and>
           traj_state tr' = traj_state tr @ sts \<and>
           traj_action tr' = traj_action tr @ acts \<and>
           traj_prob tr' = traj_prob tr @ probs \<and>
           traj_x1 tr' = traj_x1 tr @ hs \<and>
           calls wd' = calls wd @ episode_calls render acts fl \<and>
           (\<forall>i<length fl. fl ! i \<longrightarrow> Suc i = length fl) \<and>
           (length fl < n \<longrightarrow> 0 < length fl \<and> fl ! (length fl - 1))"
  using assms
proof (induction n arbitrary: st tr wd)
  case 0
  then have "tr' = tr" "wd' = wd"
    by simp_all
  then show ?case
    apply -
    apply (rule exI [of _ "[]"], rule exI [of _ "[]"], rule exI [of _ "[]"],
        rule exI [of _ "[]"], rule exI [of _ "[]"], rule exI [of _ "[]"])
    apply simp
    done
next
  case (Suc n)
  from Suc.prems obtain a p h rng' where
    ca: "choose_action choice W1 W2 n_act st (rng_state wd) = Inr ((a, p, h), rng')"
    by (auto split: sum.splits)
  from Suc.prems ca obtain st' rew d e' where
    es: "env_step env (env_state wd) a = Inr ((st', rew, d), e')"
    by (auto split: sum.splits)
  define tr1 where "tr1 = \<lparr>traj_reward = traj_reward tr @ [rew],
                    traj_state = traj_state tr @ [st],
                    traj_action = traj_action tr @ [a],
                    traj_prob = traj_prob tr @ [p],
                    traj_x1 = traj_x1 tr @ [h]\<rparr>"
  define wd1 where
    "wd1 = \<lparr>env_state = e', rng_state = rng', calls = calls wd @ [EnvStep a d]\<rparr>"
  have unfold: "episode_loop env choice W1 W2 n_act render (Suc n) st tr wd =
      (if d then Inr (tr1, wd1)
       else if render then
         (case env_render env e' of
            Inl e \<Rightarrow> Inl e
          | Inr e'' \<Rightarrow>
              episode_loop env choice W1 W2 n_act render n st' tr1
                (wd1\<lparr>env_state := e'', calls := calls wd1 @ [EnvRender]\<rparr>))
       else episode_loop env choice W1 W2 n_act render n st' tr1 wd1)"
    unfolding tr1_def wd1_def by (simp add: ca es Let_def)
  show ?case
  proof (cases d)
    case True
    with Suc.prems unfold have "tr' = tr1" "wd' = wd1"
      by simp_all
    then show ?thesis
      apply -
      apply (rule exI [of _ "[rew]"], rule exI [of _ "[st]"], rule exI [of _ "[a]"],
          rule exI [of _ "[p]"], rule exI [of _ "[h]"], rule exI [of _ "[True]"])
      apply (simp add: tr1_def wd1_def True)
      done
  next
    case False
    obtain wd2 where
      rec: "episode_loop env choice W1 W2 n_act render n st' tr1 wd2 = Inr (tr', wd')"
      and c2: "calls wd2 = calls wd1 @ (if render then [EnvRender] else [])"
    proof (cases render)
      case True
      with Suc.prems unfold False obtain e'' where
        er: "env_render env e' = Inr e''"
        by (auto split: sum.splits)
      with Suc.prems unfold False True
      have "episode_loop env choice W1 W2 n_act render n st' tr1
              (wd1\<lparr>env_state := e'', calls := calls wd1 @ [EnvRender]\<rparr>) = Inr (tr', wd')"
        by simp
      with True that [of "wd1\<lparr>env_state := e'', calls := calls wd1 @ [EnvRender]\<rparr>"]
      show ?thesis
        by simp
    next
      case nr: False
      with Suc.prems unfold False that [of wd1] show ?thesis
        by simp
    qed
    from Suc.IH [OF rec] obtain rews sts acts probs hs fl where
      len: "length rews = length fl" "length sts = length fl" "length acts = length fl"
        "length probs = length fl" "length hs = length fl" "length fl \<le> n"
      and app: "traj_reward tr' = traj_reward tr1 @ rews"
        "traj_state tr' = traj_state tr1 @ sts"
        "traj_action tr' = traj_action tr1 @ acts"
        "traj_prob tr' = traj_prob tr1 @ probs"
        "traj_x1 tr' = traj_x1 tr1 @ hs"
      and cl: "calls wd' = calls wd2 @ episode_calls render acts fl"
      and last: "\<forall>i<length fl. fl ! i \<longrightarrow> Suc i = length fl"
      and early: "length fl < n \<longrightarrow> 0 < length fl \<and> fl ! (length fl - 1)"
      by blast
    have last': "\<forall>i<length (False # fl). (False # fl) ! i \<longrightarrow> Suc i = length (False # fl)"
    proof (intro allI impI)
      fix i
      assume "i < length (False # fl)" and "(False # fl) ! i"
      then show "Suc i = length (False # fl)"
        using last by (cases i) auto
    qed
    have early': "length (False # fl) < Suc n \<longrightarrow>
        0 < length (False # fl) \<and> (False # fl) ! (length (False # fl) - 1)"
      using early by (cases "length fl") auto
    show ?thesis
      apply (rule exI [of _ "rew # rews"], rule exI [of _ "st # sts"],
          rule exI [of _ "a # acts"], rule exI [of _ "p # probs"], rule exI [of _ "h # hs"],
          rule exI [of _ "False # fl"])
      using len app cl c2 last' early' False
      apply (simp add: tr1_def wd1_def)
      done
  qed
qed

lemma count_steps_Nil [simp]: "count_steps [] = 0"
  by (simp add: count_steps_def)

lemma count_steps_Cons [simp]:
  "count_steps (c # cs) = (if is_step c then 1 else 0) + count_steps cs"
  by (simp add: count_steps_def)

lemma count_renders_Nil [simp]: "count_renders [] = 0"
  by (simp add: count_renders_def)

lemma count_renders_Cons [simp]:
  "count_renders (c # cs) = (if is_render c then 1 else 0) + count_renders cs"
  by (simp add: count_renders_def)

lemma count_draws_Nil [simp]: "count_draws [] = 0"
  by (simp add: count_draws_def)

lemma count_draws_Cons [simp]:
  "count_draws (c # cs) = (if is_draw c then 1 else 0) + count_draws cs"
  by (simp add: count_draws_def)

lemma get_trajectory_result:
  assumes "get_trajectory env choice W1 W2 n_act cap render wd = Inr (tr, wd')"
  shows "\<exists>fl. length fl = length (traj_reward tr) \<and>
           length (traj_state tr) = length fl \<and> length (traj_action tr) = length fl \<and>
           length (traj_prob tr) = length fl \<and> length (traj_x1 tr) = length fl \<and>
           length fl \<le> nat cap \<and>
           calls wd' = calls wd @ EnvReset # episode_calls render (traj_action tr) fl \<and>
           (\<forall>i<length fl. fl ! i \<longrightarrow> Suc i = length fl) \<and>
           (length fl < nat cap \<longrightarrow> 0 < length fl \<and> fl ! (length fl - 1))"
proof -
  from assms obtain st e where
    reset: "env_reset env (env_state wd) = Inr (st, e)"
    by (auto simp: get_trajectory_def split: sum.splits)
  with assms have
    "episode_loop env choice W1 W2 n_act render (nat cap) st empty_trajectory
       (wd\<lparr>env_state := e, calls := calls wd @ [EnvReset]\<rparr>) = Inr (tr, wd')"
    by (simp add: get_trajectory_def)
  from episode_loop_result [OF this] show ?thesis
    by (auto simp: empty_trajectory_def)
qed

text \<open>
  The loop returns when every call it makes returns: \<open>I\<close> is any property of the state
  of the environment, the observation and the state of the random source that the calls
  of one iteration preserve and under which they succeed.
\<close>

lemma episode_loop_succeeds:
  assumes step: "\<And>e st rng. I e st rng \<Longrightarrow>
      \<exists>a p h rng' st' rew d e'.
        choose_action choice W1 W2 n_act st rng = Inr ((a, p, h), rng') \<and>
        env_step env e a = Inr ((st', rew, d), e') \<and> I e' st' rng' \<and>
        (\<exists>e''. env_render env e' = Inr e'' \<and> I e'' st' rng')"
    and inv: "I (env_state wd) st (rng_state wd)"
  shows "\<exists>tr' wd'. episode_loop env choice W1 W2 n_act render n st tr wd = Inr (tr', wd')"
  using inv
proof (induction n arbitrary: st tr wd)
  case 0
  show ?case by simp
next
  case (Suc n)
  from step [OF Suc.prems] obtain a p h rng' st' rew d e' e'' where
    ca: "choose_action choice W1 W2 n_act st (rng_state wd) = Inr ((a, p, h), rng')"
    and es: "env_step env (env_state wd) a = Inr ((st', rew, d), e')"
    and i1: "I e' st' rng'"
    and er: "env_render env e' = Inr e''"
    and i2: "I e'' st' rng'"
    by blast
  define tr1 where "tr1 = \<lparr>traj_reward = traj_reward tr @ [rew],
                    traj_state = traj_state tr @ [st],
                    traj_action = traj_action tr @ [a],
                    traj_prob = traj_prob tr @ [p],
                    traj_x1 = traj_x1 tr @ [h]\<rparr>"
  define wd1 where
    "wd1 = \<lparr>env_state = e', rng_state = rng', calls = calls wd @ [EnvStep a d]\<rparr>"
  define wd2 where "wd2 = wd1\<lparr>env_state := e'', calls := calls wd1 @ [EnvRender]\<rparr>"
  have unfold: "episode_loop env choice W1 W2 n_act render (Suc n) st tr wd =
      (if d then Inr (tr1, wd1)
       else if render then episode_loop env choice W1 W2 n_act render n st' tr1 wd2
       else episode_loop env choice W1 W2 n_act render n st' tr1 wd1)"
    unfolding tr1_def wd1_def wd2_def by (simp add: ca es er Let_def)
  have "I (env_state wd1) st' (rng_state wd1)" "I (env_state wd2) st' (rng_state wd2)"
    using i1 i2 by (simp_all add: wd1_def wd2_def)
  from Suc.IH [OF this(1)] Suc.IH [OF this(2)] show ?case
    unfolding unfold by auto
qed

text \<open>
  C9. A trajectory that the collector returns has its five recorded sequences of one
  length, which is the number of steps the environment was asked to take and is at most
  the configured maximum. Only the last of these steps can have reported the end of the
  episode, and when fewer steps than the maximum were taken the last one did report it:
  the loop stops at the end of the episode or at the cap, whichever comes first.
  Reaching the cap is no error: whenever each call of an iteration returns, the
  collector returns a trajectory.
\<close>

theorem get_trajectory_lengths:
  "(get_trajectory env choice W1 W2 n_act cap render wd = Inr (tr, wd') \<longrightarrow>
      length (traj_state tr) = length (traj_reward tr) \<and>
      length (traj_action tr) = length (traj_reward tr) \<and>
      length (traj_prob tr) = length (traj_reward tr) \<and>
      length (traj_x1 tr) = length (traj_reward tr) \<and>
      count_steps (calls wd') = count_steps (calls wd) + length (traj_reward tr) \<and>
      length (traj_reward tr) \<le> nat cap \<and>
      (\<exists>fl. step_flags (calls wd') = step_flags (calls wd) @ fl \<and>
            length fl = length (traj_reward tr) \<and>
            (\<forall>i<length fl. fl ! i \<longrightarrow> Suc i = length fl) \<and>
            (length fl < nat cap \<longrightarrow> 0 < length fl \<and> fl ! (length fl - 1)))) \<and>
   ((\<exists>st e. env_reset env (env_state wd) = Inr (st, e) \<and> I e st (rng_state wd)) \<and>
    (\<forall>e st rng. I e st rng \<longrightarrow>
       (\<exists>a p h rng' st' rew d e'.
          choose_action choice W1 W2 n_act st rng = Inr ((a, p, h), rng') \<and>
          env_step env e a = Inr ((st', rew, d), e') \<and> I e' st' rng' \<and>
          (\<exists>e''. env_render env e' = Inr e'' \<and> I e'' st' rng'))) \<longrightarrow>
    (\<exists>tr wd'. get_trajectory env choice W1 W2 n_act cap render wd = Inr (tr, wd')))"
proof (intro conjI impI)
  assume ok: "get_trajectory env choice W1 W2 n_act cap render wd = Inr (tr, wd')"
  from get_trajectory_result [OF ok] obtain fl where
    len: "length fl = length (traj_reward tr)" "length (traj_state tr) = length fl"
      "length (traj_action tr) = length fl" "length (traj_prob tr) = length fl"
      "length (traj_x1 tr) = length fl" "length fl \<le> nat cap"
    and cl: "calls wd' = calls wd @ EnvReset # episode_calls render (traj_action tr) fl"
    and last: "\<forall>i<length fl. fl ! i \<longrightarrow> Suc i = length fl"
    and early: "length fl < nat cap \<longrightarrow> 0 < length fl \<and> fl ! (length fl - 1)"
    by blast
  show "length (traj_state tr) = length (traj_reward tr)"
    "length (traj_action tr) = length (traj_reward tr)"
    "length (traj_prob tr) = length (traj_reward tr)"
    "length (traj_x1 tr) = length (traj_reward tr)"
    "length (traj_reward tr) \<le> nat cap"
    using len by simp_all
  show "count_steps (calls wd') = count_steps (calls wd) + length (traj_reward tr)"
    using cl len by (simp add: count_steps_episode_calls)
  have "step_flags (calls wd') = step_flags (calls wd) @ fl"
    using cl len by (simp add: step_flags_episode_calls)
  with len last early
  show "\<exists>fl. step_flags (calls wd') = step_flags (calls wd) @ fl \<and>
            length fl = length (traj_reward tr) \<and>
            (\<forall>i<length fl. fl ! i \<longrightarrow> Suc i = length fl) \<and>
            (length fl < nat cap \<longrightarrow> 0 < length fl \<and> fl ! (length fl - 1))"
    by blast
next
  assume hyp: "(\<exists>st e. env_reset env (env_state wd) = Inr (st, e) \<and> I e st (rng_state wd)) \<and>
    (\<forall>e st rng. I e st rng \<longrightarrow>
       (\<exists>a p h rng' st' rew d e'.
          choose_action choice W1 W2 n_act st rng = Inr ((a, p, h), rng') \<and>
          env_step env e a = Inr ((st', rew, d), e') \<and> I e' st' rng' \<and>
          (\<exists>e''. env_render env e' = Inr e'' \<and> I e'' st' rng')))"
  then obtain st e where
    reset: "env_reset env (env_state wd) = Inr (st, e)" and inv: "I e st (rng_state wd)"
    by blast
  define wd0 where "wd0 = wd\<lparr>env_state := e, calls := calls wd @ [EnvReset]\<rparr>"
  have inv0: "I (env_state wd0) st (rng_state wd0)"
    using inv by (simp add: wd0_def)
  have "\<exists>tr' wd'. episode_loop env choice W1 W2 n_act render (nat cap) st empty_trajectory wd0 =
      Inr (tr', wd')"
    by (rule episode_loop_succeeds [where I = I, OF _ inv0]) (use hyp in blast)
  then show "\<exists>tr wd'. get_trajectory env choice W1 W2 n_act cap render wd = Inr (tr, wd')"
    by (simp add: get_trajectory_def reset wd0_def)
qed

lemma choose_action_example:
  assumes "n = 2"
  shows "choose_action first_index_sampler example_w1 example_w2 n [Fin 1, Fin 0] rng =
     Inr ((0, [Fin (1 / 2), Fin (1 / 2)], [Fin 1]), rng)"
  using assms
  by (simp add: choose_action_def forward_step_def np_dot_vec_def ent_def example_w1_def
        example_w2_def sigmoid_def random_with_probability_def first_index_sampler_def
        is_distribution_def zero_npfloat_def one_npfloat_def upt_conv_Cons)

text \<open>
  An environment that ends the episode at its second step, collected with a cap of one
  step: the collector returns the one-step trajectory, and the step did not report the
  end of the episode.
\<close>

theorem get_trajectory_lengths_witness:
  "get_trajectory two_step_env first_index_sampler example_w1 example_w2 2 1 False start_world =
     Inr (\<lparr>traj_reward = [Fin 2], traj_state = [[Fin 1, Fin 0]], traj_action = [0],
           traj_prob = [[Fin (1 / 2), Fin (1 / 2)]], traj_x1 = [[Fin 1]]\<rparr>,
          \<lparr>env_state = 1, rng_state = (), calls = [EnvReset, EnvStep 0 False]\<rparr>) \<and>
   count_steps [EnvReset, EnvStep 0 False] = 1 \<and>
   step_flags [EnvReset, EnvStep 0 False] = [False]"
proof -
  have run: "get_trajectory two_step_env first_index_sampler example_w1 example_w2 2 1 False
      start_world =
     Inr (\<lparr>traj_reward = [Fin 2], traj_state = [[Fin 1, Fin 0]], traj_action = [0],
           traj_prob = [[Fin (1 / 2), Fin (1 / 2)]], traj_x1 = [[Fin 1]]\<rparr>,
          \<lparr>env_state = 1, rng_state = (), calls = [EnvReset, EnvStep 0 False]\<rparr>)"
    by (simp add: get_trajectory_def two_step_env_def start_world_def empty_trajectory_def
          choose_action_example)
  have "\<exists>tr wd'. get_trajectory two_step_env first_index_sampler example_w1 example_w2 2 1 False
      start_world = Inr (tr, wd')"
  proof (rule get_trajectory_lengths
      [where I = "\<lambda>e st rng. st = [Fin 1, Fin 0]", THEN conjunct2, THEN mp],
      intro conjI allI impI)
    show "\<exists>st e. env_reset two_step_env (env_state start_world) = Inr (st, e) \<and>
        st = [Fin 1, Fin 0]"
      by (simp add: two_step_env_def)
  next
    fix e :: nat and st :: "npfloat list" and rng :: unit
    assume "st = [Fin 1, Fin 0]"
    then show "\<exists>a p h rng' st' rew d e'.
        choose_action first_index_sampler example_w1 example_w2 2 st rng =
          Inr ((a, p, h), rng') \<and>
        env_step two_step_env e a = Inr ((st', rew, d), e') \<and> st' = [Fin 1, Fin 0] \<and>
        (\<exists>e''. env_render two_step_env e' = Inr e'' \<and> st' = [Fin 1, Fin 0])"
      by (simp add: choose_action_example two_step_env_def)
  qed
  with run show ?thesis
    by simp
qed

text \<open>
  C8, as the claim states it, fails: with rendering on and an environment whose rendering
  call raises, the exception leaves the collector after the first step.
\<close>

theorem get_trajectory_render_failure_counterexample:
  "get_trajectory failing_render_env first_index_sampler example_w1 example_w2 2 3 True
     start_world = Inl CollaboratorError"
  by (simp add: get_trajectory_def failing_render_env_def start_world_def empty_trajectory_def
        choose_action_example numeral_3_eq_3)

text \<open>
  C8, amended. With rendering on, the collector makes one rendering call right after each
  step that did not end the episode, and none after a step that ended it; with rendering
  off it makes none. An exception of a rendering call is not caught: it ends the loop,
  and with it the collection.
\<close>

theorem get_trajectory_rendering:
  "(get_trajectory env choice W1 W2 n_act cap render wd = Inr (tr, wd') \<longrightarrow>
      (\<exists>fl. length fl = length (traj_action tr) \<and>
            calls wd' = calls wd @ EnvReset # episode_calls render (traj_action tr) fl \<and>
            count_renders (calls wd') =
              count_renders (calls wd) + (if render then length (filter Not fl) else 0))) \<and>
   (choose_action choice W1 W2 n_act st (rng_state w) = Inr ((a, p, h), rng') \<and>
    env_step env (env_state w) a = Inr ((st', rew, False), e') \<and>
    env_render env e' = Inl err \<longrightarrow>
      episode_loop env choice W1 W2 n_act True (Suc n) st tr0 w = Inl err)"
proof (intro conjI impI)
  assume ok: "get_trajectory env choice W1 W2 n_act cap render wd = Inr (tr, wd')"
  from get_trajectory_result [OF ok] obtain fl where
    len: "length (traj_action tr) = length fl"
    and cl: "calls wd' = calls wd @ EnvReset # episode_calls render (traj_action tr) fl"
    by blast
  have "count_renders (calls wd') =
      count_renders (calls wd) + (if render then length (filter Not fl) else 0)"
    using cl len by (simp add: count_renders_episode_calls)
  with len cl
  show "\<exists>fl. length fl = length (traj_action tr) \<and>
            calls wd' = calls wd @ EnvReset # episode_calls render (traj_action tr) fl \<and>
            count_renders (calls wd') =
              count_renders (calls wd) + (if render then length (filter Not fl) else 0)"
    by auto
next
  assume "choose_action choice W1 W2 n_act st (rng_state w) = Inr ((a, p, h), rng') \<and>
    env_step env (env_state w) a = Inr ((st', rew, False), e') \<and>
    env_render env e' = Inl err"
  then show "episode_loop env choice W1 W2 n_act True (Suc n) st tr0 w = Inl err"
    by (simp add: Let_def)
qed

text \<open>
  The episode of two steps, with rendering on: one rendering call, after the first step.
  And the loop on the environment whose rendering raises.
\<close>

theorem get_trajectory_rendering_witness:
  "get_trajectory two_step_env first_index_sampler example_w1 example_w2 2 5 True start_world =
     Inr (\<lparr>traj_reward = [Fin 2, Fin 0], traj_state = [[Fin 1, Fin 0], [Fin 1, Fin 0]],
           traj_action = [0, 0],
           traj_prob = [[Fin (1 / 2), Fin (1 / 2)], [Fin (1 / 2), Fin (1 / 2)]],
           traj_x1 = [[Fin 1], [Fin 1]]\<rparr>,
          \<lparr>env_state = 2, rng_state = (),
             calls = [EnvReset, EnvStep 0 False, EnvRender, EnvStep 0 True]\<rparr>) \<and>
   count_renders [EnvReset, EnvStep 0 False, EnvRender, EnvStep 0 True] = 1 \<and>
   episode_loop failing_render_env first_index_sampler example_w1 example_w2 2 True (Suc 0)
     [Fin 1, Fin 0] empty_trajectory start_world = Inl CollaboratorError"
proof -
  have run: "get_trajectory two_step_env first_index_sampler example_w1 example_w2 2 5 True
      start_world =
     Inr (\<lparr>traj_reward = [Fin 2, Fin 0], traj_state = [[Fin 1, Fin 0], [Fin 1, Fin 0]],
           traj_action = [0, 0],
           traj_prob = [[Fin (1 / 2), Fin (1 / 2)], [Fin (1 / 2), Fin (1 / 2)]],
           traj_x1 = [[Fin 1], [Fin 1]]\<rparr>,
          \<lparr>env_state = 2, rng_state = (),
             calls = [EnvReset, EnvStep 0 False, EnvRender, EnvStep 0 True]\<rparr>)"
    by (simp add: get_trajectory_def two_step_env_def start_world_def empty_trajectory_def
          choose_action_example eval_nat_numeral)
  have "episode_loop failing_render_env first_index_sampler example_w1 example_w2 2 True (Suc 0)
     [Fin 1, Fin 0] empty_trajectory start_world = Inl CollaboratorError"
  proof (rule get_trajectory_rendering [THEN conjunct2, THEN mp], intro conjI)
    show "choose_action first_index_sampler example_w1 example_w2 2 [Fin 1, Fin 0]
        (rng_state start_world) = Inr ((0, [Fin (1 / 2), Fin (1 / 2)], [Fin 1]), ())"
      by (simp add: choose_action_example)
    show "env_step failing_render_env (env_state start_world) 0 =
        Inr (([Fin 1, Fin 0], Fin 1, False), Suc 0)"
      by (simp add: failing_render_env_def start_world_def)
    show "env_render failing_render_env (Suc 0) = Inl CollaboratorError"
      by (simp add: failing_render_env_def)
  qed
  with run show ?thesis
    by simp
qed

section \<open>The gradient of one episode\<close>

lemma minus_Fin [simp]: "Fin a - Fin b = Fin (a - b)"
  by (simp add: minus_npfloat_def)

lemma times_NaN_right [simp]: "x * NaN = NaN"
  by (cases x) simp_all

lemma length_discount_rewards [simp]: "length (discount_rewards rs g) = length rs"
  by (induction rs) simp_all

lemma length_spec_returns [simp]: "length (spec_returns rs g) = length rs"
  by (induction rs) simp_all

lemma length_standardize [simp]: "length (standardize d) = length d"
  by (simp add: standardize_def Let_def)

lemma discount_rewards_Fin: "discount_rewards (map Fin rs) (Fin g) = map Fin (spec_returns rs g)"
proof (induction rs)
  case Nil
  show ?case by simp
next
  case (Cons r rs)
  then show ?case
    by (cases "spec_returns rs g") (simp_all add: zero_npfloat_def)
qed

lemma np_mean_Fin:
  assumes "xs \<noteq> []"
  shows "np_mean (map Fin xs) = Fin (spec_mean xs)"
proof -
  have "np_sum (map Fin xs) = Fin (sum_list xs)"
    using np_sum_Fin [of "\<lambda>x. x" xs] by simp
  with assms show ?thesis
    by (simp add: np_mean_def spec_mean_def)
qed

lemma sum_list_minus_const: "(\<Sum>x\<leftarrow>xs. x - c) = sum_list xs - real (length xs) * (c :: real)"
  by (induction xs) (simp_all add: algebra_simps)

lemma spec_mean_centred:
  assumes "xs \<noteq> []"
  shows "spec_mean (map (\<lambda>x. x - spec_mean xs) xs) = 0"
  using assms by (simp add: spec_mean_def sum_list_minus_const comp_def)

lemma spec_mean_squares_nonneg: "0 \<le> spec_mean (map (\<lambda>x. (x - c)\<^sup>2) xs)"
proof -
  have "0 \<le> (\<Sum>x\<leftarrow>xs. (x - c)\<^sup>2)"
    by (rule sum_list_nonneg) auto
  then show ?thesis
    by (simp add: spec_mean_def comp_def)
qed

lemma np_std_centred:
  assumes "xs \<noteq> []"
  shows "np_std (map (\<lambda>x. Fin (x - spec_mean xs)) xs) = Fin (spec_std xs)"
proof -
  define cs where "cs = map (\<lambda>x. x - spec_mean xs) xs"
  have ne: "cs \<noteq> []"
    using assms by (simp add: cs_def)
  have eq: "map (\<lambda>x. Fin (x - spec_mean xs)) xs = map Fin cs"
    by (simp add: cs_def)
  have mean0: "np_mean (map Fin cs) = Fin 0"
    using np_mean_Fin [OF ne] spec_mean_centred [OF assms] by (simp add: cs_def)
  have sq: "map (\<lambda>x. np_abs (x - Fin 0) * np_abs (x - Fin 0)) (map Fin cs) =
      map Fin (map (\<lambda>c. c\<^sup>2) cs)"
    by (simp add: power2_eq_square)
  have ne2: "map (\<lambda>c. c\<^sup>2) cs \<noteq> []"
    using ne by simp
  have m2: "map (\<lambda>c. c\<^sup>2) cs = map (\<lambda>x. (x - spec_mean xs)\<^sup>2) xs"
    by (simp add: cs_def comp_def)
  have "np_std (map Fin cs) = np_sqrt (Fin (spec_mean (map (\<lambda>c. c\<^sup>2) cs)))"
    unfolding np_std_def mean0 sq np_mean_Fin [OF ne2] ..
  also have "\<dots> = Fin (spec_std xs)"
    using spec_mean_squares_nonneg [of "spec_mean xs" xs]
    by (simp add: m2 spec_std_def)
  finally show ?thesis
    by (simp only: eq)
qed

lemma standardize_Fin:
  assumes "xs \<noteq> []"
  shows "standardize (map Fin xs) = spec_standardized xs"
proof -
  have c: "map (\<lambda>g. g - np_mean (map Fin xs)) (map Fin xs) =
      map (\<lambda>x. Fin (x - spec_mean xs)) xs"
    by (simp add: np_mean_Fin [OF assms])
  show ?thesis
    unfolding standardize_def Let_def c np_std_centred [OF assms]
    by (simp add: spec_standardized_def)
qed

lemma broadcast2_same_shape:
  assumes "nrows B = nrows A" and "ncols B = ncols A"
  shows "broadcast2 f A B =
           Inr (tabulate2 (nrows A) (ncols A) (\<lambda>i j. f (ent A i j) (ent B i j)))"
proof -
  have "bent A i j = ent A i j" "bent B i j = ent B i j"
    if "i < nrows A" "j < ncols A" for i j
    using that assms by (auto simp: bent_def)
  then have "tabulate2 (nrows A) (ncols A) (\<lambda>i j. f (bent A i j) (bent B i j)) =
      tabulate2 (nrows A) (ncols A) (\<lambda>i j. f (ent A i j) (ent B i j))"
    by (intro tabulate2_cong) simp
  then show ?thesis
    using assms by (simp add: broadcast2_def bdim_def)
qed

lemma inplace2_same_shape:
  assumes "nrows B = nrows A" and "ncols B = ncols A"
  shows "inplace2 f A B =
           Inr (tabulate2 (nrows A) (ncols A) (\<lambda>i j. f (ent A i j) (ent B i j)))"
  by (simp add: inplace2_def broadcast2_same_shape [OF assms])

lemma ent_np_array [simp]: "ent (np_array xs) t a = xs ! t ! a"
  by (simp add: ent_def np_array_def)

lemma nrows_np_array [simp]: "nrows (np_array xs) = length xs"
  by (simp add: np_array_def)

lemma ncols_np_array [simp]: "ncols (np_array xs) = length (hd xs)"
  by (simp add: np_array_def)

lemma length_np_repeat [simp]: "length (np_repeat xs n) = length xs * n"
  by (induction xs) (simp_all add: np_repeat_def)

lemma np_repeat_nth:
  assumes "i < length xs" and "j < n"
  shows "np_repeat xs n ! (i * n + j) = xs ! i"
  using assms
proof (induction xs arbitrary: i)
  case Nil
  then show ?case by simp
next
  case (Cons x xs)
  show ?case
  proof (cases i)
    case 0
    with Cons.prems show ?thesis
      by (simp add: np_repeat_def nth_append)
  next
    case (Suc k)
    with Cons.prems have "k < length xs"
      by simp
    from Cons.IH [OF this Cons.prems(2)] Suc show ?thesis
      by (simp add: np_repeat_def nth_append)
  qed
qed

text \<open>
  Lines 132 to 144 on a trajectory of at least one step whose lists have one length and
  whose probability rows have one entry per action: the error signal is computed without
  an exception, and the result is that of the backward pass on it.
\<close>

lemma episode_gradient_eq:
  assumes "traj_reward tr \<noteq> []"
    and "length (traj_action tr) = length (traj_reward tr)"
    and "length (traj_prob tr) = length (traj_reward tr)"
    and "length (hd (traj_prob tr)) = n_act"
  shows "episode_gradient W2 n_act gam tr =
           backward_step W2 (np_array (traj_state tr)) (np_array (traj_x1 tr))
             (tabulate2 (length (traj_reward tr)) n_act
                (\<lambda>t a. ((if a = traj_action tr ! t then 1 else 0) - traj_prob tr ! t ! a) *
                       standardize (discount_rewards (traj_reward tr) (Fin gam)) ! t))"
proof -
  let ?T = "length (traj_reward tr)"
  let ?d = "standardize (discount_rewards (traj_reward tr) (Fin gam))"
  define onehot where
    "onehot = tabulate2 (length (traj_action tr)) n_act
            (\<lambda>t a. if a = traj_action tr ! t then 1 else (0 :: npfloat))"
  define ep where
    "ep = tabulate2 ?T n_act
            (\<lambda>t a. (if a = traj_action tr ! t then 1 else 0) - traj_prob tr ! t ! a)"
  define sc where "sc = tabulate2 ?T n_act (\<lambda>i j. np_repeat ?d n_act ! (i * n_act + j))"
  have sub: "broadcast2 (\<lambda>x y. x - y) onehot (np_array (traj_prob tr)) = Inr ep"
    using assms
    by (simp add: broadcast2_same_shape onehot_def ep_def) (auto intro!: tabulate2_cong)
  have len: "length ?d = ?T"
    by simp
  have resh: "np_reshape (np_repeat ?d n_act) (length ?d) n_act = Inr sc"
    by (simp add: np_reshape_def sc_def)
  have mul: "inplace2 (\<lambda>x y. x * y) ep sc =
      Inr (tabulate2 ?T n_act
             (\<lambda>t a. ((if a = traj_action tr ! t then 1 else 0) - traj_prob tr ! t ! a) *
                    ?d ! t))"
    by (simp add: inplace2_same_shape ep_def sc_def)
       (auto intro!: tabulate2_cong simp: np_repeat_nth)
  show ?thesis
    unfolding episode_gradient_def Let_def
    using assms(1) sub resh mul
    by (simp add: onehot_def)
qed

lemma spec_returns_nth:
  assumes "t < length rs"
  shows "spec_returns rs g ! t =
           rs ! t + g * (if Suc t < length rs then spec_returns rs g ! Suc t else 0)"
  using assms
proof (induction rs arbitrary: t)
  case Nil
  then show ?case by simp
next
  case (Cons r rs)
  show ?case
  proof (cases t)
    case 0
    show ?thesis
    proof (cases "spec_returns rs g")
      case Nil
      then have "rs = []"
        using length_spec_returns [of rs g] by simp
      with 0 Nil show ?thesis by simp
    next
      case (Cons G Gs)
      then have "rs \<noteq> []"
        by auto
      with 0 Cons show ?thesis by simp
    qed
  next
    case (Suc k)
    with Cons.prems have "k < length rs"
      by simp
    from Cons.IH [OF this] Suc show ?thesis
      by simp
  qed
qed

lemma episode_gradient_Fin:
  assumes "rs \<noteq> []"
    and "traj_reward tr = map Fin rs"
    and "length (traj_action tr) = length rs"
    and "length (traj_prob tr) = length rs"
    and "length (hd (traj_prob tr)) = n_act"
  shows "episode_gradient W2 n_act gam tr =
           backward_step W2 (np_array (traj_state tr)) (np_array (traj_x1 tr))
             (spec_error_signal n_act gam tr rs)"
proof -
  have "length (spec_returns rs gam) \<noteq> 0"
    using assms(1) by simp
  then have ne: "spec_returns rs gam \<noteq> []"
    by (simp del: length_spec_returns)
  have "standardize (discount_rewards (traj_reward tr) (Fin gam)) =
      spec_standardized (spec_returns rs gam)"
    by (simp add: assms(2) discount_rewards_Fin standardize_Fin [OF ne])
  moreover have "traj_reward tr \<noteq> []" "length (traj_reward tr) = length rs"
    using assms(1,2) by simp_all
  ultimately show ?thesis
    using assms(3-5) episode_gradient_eq [of tr n_act W2 gam]
    by (simp add: spec_error_signal_def)
qed

text \<open>
  C2. For a trajectory of at least one step with finite rewards, the gradient of the
  episode is the result of the backward pass on the stacked states, the stacked hidden
  activations and the error signal of the specification: the discounted returns
  \<open>G_t = r_t + gamma * G_{t+1}\<close> with \<open>G_T = 0\<close>, computed from the right, are
  standardized by their mean and standard deviation; row \<open>t\<close> of the error signal is
  the one-hot encoding of the action minus the recorded probabilities, scaled by the
  standardized return of step \<open>t\<close>.
\<close>

theorem episode_gradient_spec:
  assumes "rs \<noteq> []"
    and "traj_reward tr = map Fin rs"
    and "length (traj_action tr) = length rs"
    and "length (traj_prob tr) = length rs"
    and "length (hd (traj_prob tr)) = n_act"
  shows "episode_gradient W2 n_act gam tr =
           backward_step W2 (np_array (traj_state tr)) (np_array (traj_x1 tr))
             (spec_error_signal n_act gam tr rs) \<and>
         (\<forall>t<length rs. spec_returns rs gam ! t =
            rs ! t + gam * (if Suc t < length rs then spec_returns rs gam ! Suc t else 0))"
  using episode_gradient_Fin [OF assms] spec_returns_nth [of _ rs gam] by blast

lemma spec_standardized_two_step: "spec_standardized [2, 0] = [Fin 1, Fin (- 1)]"
proof -
  have m: "spec_mean [2, 0] = 1"
    by (simp add: spec_mean_def)
  have s: "spec_std [2, 0] = 1"
    by (simp add: spec_std_def m) (simp add: spec_mean_def)
  show ?thesis
    by (simp add: spec_standardized_def m s)
qed

text \<open>
  The trajectory of two steps, with the weights \<open>[[1, 0]]\<close> out of the hidden unit:
  the returns \<open>[2, 0]\<close> are standardized to \<open>[1, -1]\<close>, both rows of the error signal
  are \<open>[1 / 2, -1 / 2]\<close>.
\<close>

theorem episode_gradient_spec_witness:
  "episode_gradient \<lparr>nrows = 1, ncols = 2, rows = [[Fin 1, Fin 0]]\<rparr> 2 (99 / 100)
     two_step_trajectory =
   Inr (\<lparr>nrows = 2, ncols = 1, rows = [[Fin 1], [Fin 0]]\<rparr>,
        \<lparr>nrows = 1, ncols = 2, rows = [[Fin 1, Fin (- 1)]]\<rparr>)"
proof -
  have e: "spec_error_signal 2 (99 / 100) two_step_trajectory [2, 0] =
      \<lparr>nrows = 2, ncols = 2,
         rows = [[Fin (1 / 2), Fin (- (1 / 2))], [Fin (1 / 2), Fin (- (1 / 2))]]\<rparr>"
    by (simp add: spec_error_signal_def spec_standardized_two_step two_step_trajectory_def
          tabulate2_def upt_conv_Cons one_npfloat_def zero_npfloat_def)
  have "episode_gradient \<lparr>nrows = 1, ncols = 2, rows = [[Fin 1, Fin 0]]\<rparr> 2 (99 / 100)
      two_step_trajectory =
    backward_step \<lparr>nrows = 1, ncols = 2, rows = [[Fin 1, Fin 0]]\<rparr>
      (np_array (traj_state two_step_trajectory)) (np_array (traj_x1 two_step_trajectory))
      (spec_error_signal 2 (99 / 100) two_step_trajectory [2, 0])"
    using episode_gradient_spec
      [of "[2, 0]" two_step_trajectory 2 "\<lparr>nrows = 1, ncols = 2, rows = [[Fin 1, Fin 0]]\<rparr>"
          "99 / 100"]
    by (simp add: two_step_trajectory_def)
  then show ?thesis
    unfolding e
    by (simp add: two_step_trajectory_def np_array_def backward_step_def np_dot_def
          transpose_a_def mask_le_zero_def tabulate2_def ent_def zero_npfloat_def
          upt_conv_Cons)
qed

section \<open>The episode of one step\<close>

lemma spec_std_singleton: "spec_std [x] = 0"
  by (simp add: spec_std_def spec_mean_def)

lemma spec_standardized_singleton: "spec_standardized [x] = [NaN]"
  by (simp add: spec_standardized_def spec_std_singleton) (simp add: spec_mean_def)

text \<open>
  C5, as the claim states it, fails: on the trajectory of one step, whose single return
  has zero variance, lines 132 to 144 raise nothing and test nothing. The standardized
  return is \<open>0 / 0\<close>, a NaN, and every entry of both gradients of the episode is a NaN.
\<close>

theorem episode_gradient_single_step_counterexample:
  "episode_gradient example_w2 2 (99 / 100) one_step_trajectory =
     Inr (\<lparr>nrows = 2, ncols = 1, rows = [[NaN], [NaN]]\<rparr>,
          \<lparr>nrows = 1, ncols = 2, rows = [[NaN, NaN]]\<rparr>)"
proof -
  have d: "discount_rewards [Fin 1] (Fin (99 / 100)) = [Fin 1]"
    by (simp add: zero_npfloat_def)
  have s: "standardize [Fin 1] = [NaN]"
    by (simp add: standardize_def np_mean_def np_std_def)
  show ?thesis
    by (simp add: episode_gradient_def one_step_trajectory_def example_w2_def d s
          broadcast2_def bdim_def bent_def inplace2_def np_reshape_def np_repeat_def
          np_array_def backward_step_def np_dot_def transpose_a_def mask_le_zero_def
          tabulate2_def ent_def zero_npfloat_def one_npfloat_def upt_conv_Cons Let_def)
qed

text \<open>
  Lines 132 to 144 on a trajectory of one step with a finite reward: the standardized
  return is a NaN and so is every entry of the error signal, on which the backward pass
  is called and returns.
\<close>

lemma episode_gradient_one_step:
  assumes "traj_reward tr = [Fin r]"
    and "length (traj_state tr) = 1"
    and "length (traj_action tr) = 1"
    and "length (traj_prob tr) = 1"
    and "length (traj_x1 tr) = 1"
    and "length (hd (traj_prob tr)) = ncols W2"
    and "length (hd (traj_x1 tr)) = nrows W2"
  shows "standardize (discount_rewards (traj_reward tr) (Fin gam)) = [NaN]"
    and "episode_gradient W2 (ncols W2) gam tr =
           backward_step W2 (np_array (traj_state tr)) (np_array (traj_x1 tr))
             (tabulate2 1 (ncols W2) (\<lambda>t a. NaN))"
    and "backward_step W2 (np_array (traj_state tr)) (np_array (traj_x1 tr))
           (tabulate2 1 (ncols W2) (\<lambda>t a. NaN)) =
         Inr (spec_grad_W1 W2 (np_array (traj_state tr)) (np_array (traj_x1 tr))
                (tabulate2 1 (ncols W2) (\<lambda>t a. NaN)),
              spec_grad_W2 (np_array (traj_x1 tr)) (tabulate2 1 (ncols W2) (\<lambda>t a. NaN)))"
    and "\<forall>j<nrows W2. \<forall>a<ncols W2.
           ent (spec_grad_W2 (np_array (traj_x1 tr)) (tabulate2 1 (ncols W2) (\<lambda>t a. NaN))) j a =
             NaN"
proof -
  have rs: "traj_reward tr = map Fin [r]" "[r] \<noteq> []"
    using assms(1) by simp_all
  have ret: "spec_returns [r] gam = [r]"
    by simp
  show std: "standardize (discount_rewards (traj_reward tr) (Fin gam)) = [NaN]"
    using discount_rewards_Fin [of "[r]" gam] standardize_Fin [of "[r]"]
    by (simp add: assms(1) spec_standardized_singleton)
  have sig: "spec_error_signal (ncols W2) gam tr [r] = tabulate2 1 (ncols W2) (\<lambda>t a. NaN)"
    unfolding spec_error_signal_def ret spec_standardized_singleton
    by (simp, rule tabulate2_cong) simp
  show "episode_gradient W2 (ncols W2) gam tr =
      backward_step W2 (np_array (traj_state tr)) (np_array (traj_x1 tr))
        (tabulate2 1 (ncols W2) (\<lambda>t a. NaN))"
    using episode_gradient_Fin
      [where rs = "[r]" and tr = tr and n_act = "ncols W2" and ?W2.0 = W2 and gam = gam]
      rs assms(3,4,6)
    by (simp add: sig)
  show "backward_step W2 (np_array (traj_state tr)) (np_array (traj_x1 tr))
           (tabulate2 1 (ncols W2) (\<lambda>t a. NaN)) =
         Inr (spec_grad_W1 W2 (np_array (traj_state tr)) (np_array (traj_x1 tr))
                (tabulate2 1 (ncols W2) (\<lambda>t a. NaN)),
              spec_grad_W2 (np_array (traj_x1 tr)) (tabulate2 1 (ncols W2) (\<lambda>t a. NaN)))"
    by (rule backward_step_eq) (simp_all add: assms)
  show "\<forall>j<nrows W2. \<forall>a<ncols W2.
           ent (spec_grad_W2 (np_array (traj_x1 tr)) (tabulate2 1 (ncols W2) (\<lambda>t a. NaN))) j a =
             NaN"
    by (simp add: spec_grad_W2_def assms)
qed

text \<open>
  C5, amended. For every trajectory of one step with a finite reward, whose rows fit the
  weights, the gradient builder detects nothing and raises nothing. The single return has
  zero variance, so the standardized return is \<open>0 / 0\<close>, a NaN; every entry of the error
  signal is a NaN; the builder returns the pair of gradients that the backward pass
  computes from this error signal, and in the gradient for \<open>W2\<close> every entry of a
  hidden unit whose recorded activation is not zero is a NaN.
\<close>

theorem episode_gradient_single_step:
  assumes "traj_reward tr = [Fin r]"
    and "length (traj_state tr) = 1"
    and "length (traj_action tr) = 1"
    and "length (traj_prob tr) = 1"
    and "length (traj_x1 tr) = 1"
    and "length (hd (traj_prob tr)) = ncols W2"
    and "length (hd (traj_x1 tr)) = nrows W2"
  shows "standardize (discount_rewards (traj_reward tr) (Fin gam)) = [NaN] \<and>
         episode_gradient W2 (ncols W2) gam tr =
           backward_step W2 (np_array (traj_state tr)) (np_array (traj_x1 tr))
             (tabulate2 1 (ncols W2) (\<lambda>t a. NaN)) \<and>
         (\<exists>g1 g2. episode_gradient W2 (ncols W2) gam tr = Inr (g1, g2) \<and>
            (\<forall>j<nrows W2. \<forall>a<ncols W2.
               (\<exists>x. hd (traj_x1 tr) ! j = Fin x \<and> x \<noteq> 0) \<longrightarrow> ent g2 j a = NaN))"
  using episode_gradient_one_step [OF assms] by simp

text \<open>
  The trajectory of one step of the examples, whose hidden unit has the activation 1: the
  standardized return is a NaN, and so are both entries of the gradient for \<open>W2\<close>.
\<close>

theorem episode_gradient_single_step_witness:
  "standardize (discount_rewards (traj_reward one_step_trajectory) (Fin (99 / 100))) = [NaN] \<and>
   hd (traj_x1 one_step_trajectory) ! 0 = Fin 1 \<and>
   snd (projr (episode_gradient example_w2 2 (99 / 100) one_step_trajectory)) =
     \<lparr>nrows = 1, ncols = 2, rows = [[NaN, NaN]]\<rparr>"
proof -
  have inst: "standardize (discount_rewards (traj_reward one_step_trajectory)
        (Fin (99 / 100))) = [NaN] \<and>
      episode_gradient example_w2 (ncols example_w2) (99 / 100) one_step_trajectory =
        backward_step example_w2 (np_array (traj_state one_step_trajectory))
          (np_array (traj_x1 one_step_trajectory)) (tabulate2 1 (ncols example_w2) (\<lambda>t a. NaN)) \<and>
      (\<exists>g1 g2. episode_gradient example_w2 (ncols example_w2) (99 / 100) one_step_trajectory =
                  Inr (g1, g2) \<and>
         (\<forall>j<nrows example_w2. \<forall>a<ncols example_w2.
            (\<exists>x. hd (traj_x1 one_step_trajectory) ! j = Fin x \<and> x \<noteq> 0) \<longrightarrow>
              ent g2 j a = NaN))"
    by (rule episode_gradient_single_step [where r = 1])
       (simp_all add: one_step_trajectory_def example_w2_def)
  have "episode_gradient example_w2 2 (99 / 100) one_step_trajectory =
     Inr (\<lparr>nrows = 2, ncols = 1, rows = [[NaN], [NaN]]\<rparr>,
          \<lparr>nrows = 1, ncols = 2, rows = [[NaN, NaN]]\<rparr>)"
  proof -
    have d: "discount_rewards [Fin 1] (Fin (99 / 100)) = [Fin 1]"
      by (simp add: zero_npfloat_def)
    have s: "standardize [Fin 1] = [NaN]"
      by (simp add: standardize_def np_mean_def np_std_def)
    show ?thesis
      by (simp add: episode_gradient_def one_step_trajectory_def example_w2_def d s
          broadcast2_def bdim_def bent_def inplace2_def np_reshape_def np_repeat_def
          np_array_def backward_step_def np_dot_def transpose_a_def mask_le_zero_def
          tabulate2_def ent_def zero_npfloat_def one_npfloat_def upt_conv_Cons Let_def)
  qed
  moreover have "hd (traj_x1 one_step_trajectory) ! 0 = Fin 1"
    by (simp add: one_step_trajectory_def)
  ultimately show ?thesis
    using inst by simp
qed

section \<open>The training loop\<close>

lemma ent_map_array [simp]:
  "i < nrows A \<Longrightarrow> j < ncols A \<Longrightarrow> ent (map_array f A) i j = f (ent A i j)"
  by (simp add: map_array_def)

lemma nrows_map_array [simp]: "nrows (map_array f A) = nrows A"
  by (simp add: map_array_def)

lemma ncols_map_array [simp]: "ncols (map_array f A) = ncols A"
  by (simp add: map_array_def)

lemma rmsprop_cache_eq:
  assumes "same_shape grad cache"
  shows "rmsprop_cache cfg cache grad = Inr (spec_cache cfg cache grad)"
proof -
  have "rmsprop_cache cfg cache grad =
      Inr (tabulate2 (nrows cache) (ncols cache)
             (\<lambda>i j. ent (map_array (\<lambda>v. Fin (decay_rate cfg) * v) cache) i j +
                    ent (map_array (\<lambda>g. Fin (1 - decay_rate cfg) * (g * g)) grad) i j))"
    using assms by (simp add: rmsprop_cache_def broadcast2_same_shape same_shape_def)
  also have "\<dots> = Inr (spec_cache cfg cache grad)"
    using assms by (auto simp: spec_cache_def same_shape_def intro!: tabulate2_cong)
  finally show ?thesis .
qed

lemma rmsprop_step_eq:
  assumes "same_shape grad W" and "same_shape cache W"
  shows "rmsprop_step cfg W cache grad = Inr (spec_weights cfg W cache grad)"
proof -
  define delta where
    "delta = tabulate2 (nrows W) (ncols W)
       (\<lambda>i j. Fin (learning_rate cfg) * ent grad i j /
              (np_sqrt (ent cache i j) + Fin (1 / 100000)))"
  have "broadcast2 (\<lambda>x y. x / y)
         (map_array (\<lambda>g. Fin (learning_rate cfg) * g) grad)
         (map_array (\<lambda>v. np_sqrt v + Fin (1 / 100000)) cache) =
      Inr (tabulate2 (nrows grad) (ncols grad)
             (\<lambda>i j. ent (map_array (\<lambda>g. Fin (learning_rate cfg) * g) grad) i j /
                    ent (map_array (\<lambda>v. np_sqrt v + Fin (1 / 100000)) cache) i j))"
    using assms by (simp add: broadcast2_same_shape same_shape_def)
  also have "\<dots> = Inr delta"
    using assms by (auto simp: delta_def same_shape_def intro!: tabulate2_cong)
  finally have d: "broadcast2 (\<lambda>x y. x / y)
         (map_array (\<lambda>g. Fin (learning_rate cfg) * g) grad)
         (map_array (\<lambda>v. np_sqrt v + Fin (1 / 100000)) cache) = Inr delta" .
  have "inplace2 (\<lambda>x y. x + y) W delta =
      Inr (tabulate2 (nrows W) (ncols W) (\<lambda>i j. ent W i j + ent delta i j))"
    by (simp add: inplace2_same_shape delta_def)
  also have "\<dots> = Inr (spec_weights cfg W cache grad)"
    by (auto simp: spec_weights_def delta_def intro!: tabulate2_cong)
  finally show ?thesis
    by (simp add: rmsprop_step_def d)
qed

lemma inplace2_shape:
  assumes "inplace2 f A B = Inr C"
  shows "same_shape C A"
  using assms by (auto simp: inplace2_def same_shape_def split: sum.splits if_splits)

lemma same_shape_trans: "same_shape A B \<Longrightarrow> same_shape B C \<Longrightarrow> same_shape A C"
  by (simp add: same_shape_def)

lemma same_shape_spec_cache [simp]: "same_shape (spec_cache cfg cache grad) cache"
  by (simp add: same_shape_def spec_cache_def)

lemma same_shape_spec_weights [simp]: "same_shape (spec_weights cfg W cache grad) W"
  by (simp add: same_shape_def spec_weights_def)

lemma same_shape_zeros_like [simp]: "same_shape (zeros_like A) A"
  by (simp add: same_shape_def zeros_like_def)

text \<open>The end of a batch, for a state whose arrays have the shapes of the weights.\<close>

lemma batch_update_eq:
  assumes "state_shapes s" and "batch_update cfg s = Inr s'"
  shows "iteration s' = iteration s + 1 \<and>
         rmsprop1 s' = spec_cache cfg (rmsprop1 s) (gradient1 s) \<and>
         rmsprop2 s' = spec_cache cfg (rmsprop2 s) (gradient2 s) \<and>
         w1 s' = spec_weights cfg (w1 s) (rmsprop1 s') (gradient1 s) \<and>
         w2 s' = spec_weights cfg (w2 s) (rmsprop2 s') (gradient2 s) \<and>
         gradient1 s' = zeros_like (w1 s') \<and> gradient2 s' = zeros_like (w2 s') \<and>
         episode_nr s' = episode_nr s \<and>
         draw_frequency cfg \<noteq> 0 \<and>
         calls (world s') = calls (world s) @
           PrintIterationStats (iteration s + 1) (episode_rewards s) (episode_lengths s)
             (episode_nr s) #
           (if episode_nr s mod draw_frequency cfg = 0
            then [DrawRewards (mean_rewards s @ [np_mean (episode_rewards s)])] else [])"
proof -
  have sh: "same_shape (gradient1 s) (rmsprop1 s)" "same_shape (gradient2 s) (rmsprop2 s)"
    "same_shape (gradient1 s) (w1 s)" "same_shape (gradient2 s) (w2 s)"
    "same_shape (spec_cache cfg (rmsprop1 s) (gradient1 s)) (w1 s)"
    "same_shape (spec_cache cfg (rmsprop2 s) (gradient2 s)) (w2 s)"
    using assms(1) by (auto simp: state_shapes_def same_shape_def spec_cache_def)
  have r1: "rmsprop_cache cfg (rmsprop1 s) (gradient1 s) =
      Inr (spec_cache cfg (rmsprop1 s) (gradient1 s))"
    by (rule rmsprop_cache_eq [OF sh(1)])
  have r2: "rmsprop_cache cfg (rmsprop2 s) (gradient2 s) =
      Inr (spec_cache cfg (rmsprop2 s) (gradient2 s))"
    by (rule rmsprop_cache_eq [OF sh(2)])
  have u1: "rmsprop_step cfg (w1 s) (spec_cache cfg (rmsprop1 s) (gradient1 s)) (gradient1 s) =
      Inr (spec_weights cfg (w1 s) (spec_cache cfg (rmsprop1 s) (gradient1 s)) (gradient1 s))"
    by (rule rmsprop_step_eq [OF sh(3) sh(5)])
  have u2: "rmsprop_step cfg (w2 s) (spec_cache cfg (rmsprop2 s) (gradient2 s)) (gradient2 s) =
      Inr (spec_weights cfg (w2 s) (spec_cache cfg (rmsprop2 s) (gradient2 s)) (gradient2 s))"
    by (rule rmsprop_step_eq [OF sh(4) sh(6)])
  have dz: "draw_frequency cfg \<noteq> 0"
    using assms(2) by (auto simp: batch_update_def r1 r2 u1 u2 Let_def py_mod_def)
  have "s' = s\<lparr>iteration := iteration s + 1,
        rmsprop1 := spec_cache cfg (rmsprop1 s) (gradient1 s),
        rmsprop2 := spec_cache cfg (rmsprop2 s) (gradient2 s),
        w1 := spec_weights cfg (w1 s) (spec_cache cfg (rmsprop1 s) (gradient1 s)) (gradient1 s),
        w2 := spec_weights cfg (w2 s) (spec_cache cfg (rmsprop2 s) (gradient2 s)) (gradient2 s),
        gradient1 := zeros_like
          (spec_weights cfg (w1 s) (spec_cache cfg (rmsprop1 s) (gradient1 s)) (gradient1 s)),
        gradient2 := zeros_like
          (spec_weights cfg (w2 s) (spec_cache cfg (rmsprop2 s) (gradient2 s)) (gradient2 s)),
        mean_rewards := mean_rewards s @ [np_mean (episode_rewards s)],
        world := (world s)\<lparr>calls := calls (world s) @
          PrintIterationStats (iteration s + 1) (episode_rewards s) (episode_lengths s)
            (episode_nr s) #
          (if episode_nr s mod draw_frequency cfg = 0
           then [DrawRewards (mean_rewards s @ [np_mean (episode_rewards s)])] else [])\<rparr>\<rparr>"
    using assms(2) dz
    by (auto simp: batch_update_def r1 r2 u1 u2 Let_def py_mod_def split: if_splits)
  with dz show ?thesis
    by simp
qed

lemma count_draws_get_trajectory:
  assumes "get_trajectory env choice W1 W2 n_act cap render wd = Inr (tr, wd')"
  shows "count_draws (calls wd') = count_draws (calls wd)"
proof -
  from get_trajectory_result [OF assms] obtain fl where
    "calls wd' = calls wd @ EnvReset # episode_calls render (traj_action tr) fl"
    by blast
  then show ?thesis
    by (simp add: count_draws_episode_calls)
qed

lemma batch_update_calls:
  assumes "batch_update cfg s = Inr s'"
  shows "count_draws (calls (world s')) =
           count_draws (calls (world s)) +
             (if episode_nr s mod draw_frequency cfg = 0 then 1 else 0)"
  using assms
  by (auto simp: batch_update_def Let_def py_mod_def split: sum.splits if_splits)

text \<open>
  One pass of the loop that returns: the episode was collected, its gradient computed and
  added to both accumulators, and the state after these lines either is the state after
  the pass or, at the end of a batch, is what the update of the batch starts from.
\<close>

lemma learn_body_result:
  assumes "learn_body env choice cfg n_act s = Inr s'"
  shows "\<exists>tr wd rw ln c1 c2 g1 g2.
           get_trajectory env choice (w1 s) (w2 s) n_act (episode_max_length cfg)
             (episode_max_length cfg \<noteq> 0) (world s) = Inr (tr, wd) \<and>
           batch_size cfg \<noteq> 0 \<and>
           episode_gradient (w2 s) n_act (gamma cfg) tr = Inr (c1, c2) \<and>
           inplace2 (\<lambda>x y. x + y) (gradient1 s) c1 = Inr g1 \<and>
           inplace2 (\<lambda>x y. x + y) (gradient2 s) c2 = Inr g2 \<and>
           (if (episode_nr s + 1) mod batch_size cfg = 0
            then batch_update cfg
                   (s\<lparr>episode_rewards := rw, episode_lengths := ln,
                      episode_nr := episode_nr s + 1, gradient1 := g1, gradient2 := g2,
                      world := wd\<rparr>) = Inr s'
            else s' = s\<lparr>episode_rewards := rw, episode_lengths := ln,
                      episode_nr := episode_nr s + 1, gradient1 := g1, gradient2 := g2,
                      world := wd\<rparr>)"
proof -
  from assms obtain tr wd where
    gt: "get_trajectory env choice (w1 s) (w2 s) n_act (episode_max_length cfg)
           (episode_max_length cfg \<noteq> 0) (world s) = Inr (tr, wd)"
    by (auto simp: learn_body_def split: sum.splits)
  from assms gt have bs: "batch_size cfg \<noteq> 0"
    by (auto simp: learn_body_def py_mod_def split: if_splits)
  then have m1: "py_mod (episode_nr s) (batch_size cfg) = Inr (episode_nr s mod batch_size cfg)"
    and m2: "py_mod (episode_nr s + 1) (batch_size cfg) =
      Inr ((episode_nr s + 1) mod batch_size cfg)"
    by (simp_all add: py_mod_def)
  from assms gt m1 obtain rw where
    rw: "setitem (episode_rewards s) (episode_nr s mod batch_size cfg)
           (py_sum (traj_reward tr)) = Inr rw"
    by (auto simp: learn_body_def split: sum.splits)
  from assms gt m1 rw obtain ln where
    ln: "setitem (episode_lengths s) (episode_nr s mod batch_size cfg)
           (Fin (real (length (traj_reward tr)))) = Inr ln"
    by (auto simp: learn_body_def split: sum.splits)
  from assms gt m1 rw ln obtain c1 c2 where
    eg: "episode_gradient (w2 s) n_act (gamma cfg) tr = Inr (c1, c2)"
    by (auto simp: learn_body_def split: sum.splits)
  from assms gt m1 rw ln eg obtain g1 where
    g1: "inplace2 (\<lambda>x y. x + y) (gradient1 s) c1 = Inr g1"
    by (auto simp: learn_body_def split: sum.splits)
  from assms gt m1 rw ln eg g1 obtain g2 where
    g2: "inplace2 (\<lambda>x y. x + y) (gradient2 s) c2 = Inr g2"
    by (auto simp: learn_body_def split: sum.splits)
  from assms have
    "(if (episode_nr s + 1) mod batch_size cfg = 0
      then batch_update cfg
             (s\<lparr>episode_rewards := rw, episode_lengths := ln,
                episode_nr := episode_nr s + 1, gradient1 := g1, gradient2 := g2,
                world := wd\<rparr>) = Inr s'
      else s' = s\<lparr>episode_rewards := rw, episode_lengths := ln,
                episode_nr := episode_nr s + 1, gradient1 := g1, gradient2 := g2,
                world := wd\<rparr>)"
    by (auto simp: learn_body_def gt m1 m2 rw ln eg g1 g2 Let_def)
  with gt bs eg g1 g2 show ?thesis
    by blast
qed

lemma zeros_like_same_shape: "same_shape A B \<Longrightarrow> zeros_like A = zeros_like B"
  by (simp add: zeros_like_def same_shape_def)

lemma same_shape_sym: "same_shape A B \<Longrightarrow> same_shape B A"
  by (simp add: same_shape_def)

lemma learn_body_update_eq:
  assumes "learn_body env choice cfg n_act s = Inr s'" and "state_shapes s"
  shows "episode_nr s' = episode_nr s + 1 \<and> batch_size cfg \<noteq> 0 \<and> state_shapes s' \<and>
    (\<exists>tr wd c1 c2 g1 g2.
       get_trajectory env choice (w1 s) (w2 s) n_act (episode_max_length cfg)
         (episode_max_length cfg \<noteq> 0) (world s) = Inr (tr, wd) \<and>
       episode_gradient (w2 s) n_act (gamma cfg) tr = Inr (c1, c2) \<and>
       inplace2 (\<lambda>x y. x + y) (gradient1 s) c1 = Inr g1 \<and>
       inplace2 (\<lambda>x y. x + y) (gradient2 s) c2 = Inr g2 \<and>
       (if episode_nr s' mod batch_size cfg = 0
        then iteration s' = iteration s + 1 \<and>
             rmsprop1 s' = spec_cache cfg (rmsprop1 s) g1 \<and>
             rmsprop2 s' = spec_cache cfg (rmsprop2 s) g2 \<and>
             w1 s' = spec_weights cfg (w1 s) (rmsprop1 s') g1 \<and>
             w2 s' = spec_weights cfg (w2 s) (rmsprop2 s') g2 \<and>
             gradient1 s' = zeros_like (w1 s) \<and> gradient2 s' = zeros_like (w2 s)
        else iteration s' = iteration s \<and>
             rmsprop1 s' = rmsprop1 s \<and> rmsprop2 s' = rmsprop2 s \<and>
             w1 s' = w1 s \<and> w2 s' = w2 s \<and>
             gradient1 s' = g1 \<and> gradient2 s' = g2))"
proof -
  from learn_body_result [OF assms(1)] obtain tr wd rw ln c1 c2 g1 g2 where
    gt: "get_trajectory env choice (w1 s) (w2 s) n_act (episode_max_length cfg)
           (episode_max_length cfg \<noteq> 0) (world s) = Inr (tr, wd)"
    and bs: "batch_size cfg \<noteq> 0"
    and eg: "episode_gradient (w2 s) n_act (gamma cfg) tr = Inr (c1, c2)"
    and g1: "inplace2 (\<lambda>x y. x + y) (gradient1 s) c1 = Inr g1"
    and g2: "inplace2 (\<lambda>x y. x + y) (gradient2 s) c2 = Inr g2"
    and fin: "if (episode_nr s + 1) mod batch_size cfg = 0
            then batch_update cfg
                   (s\<lparr>episode_rewards := rw, episode_lengths := ln,
                      episode_nr := episode_nr s + 1, gradient1 := g1, gradient2 := g2,
                      world := wd\<rparr>) = Inr s'
            else s' = s\<lparr>episode_rewards := rw, episode_lengths := ln,
                      episode_nr := episode_nr s + 1, gradient1 := g1, gradient2 := g2,
                      world := wd\<rparr>"
    by blast
  define mid where
    "mid = s\<lparr>episode_rewards := rw, episode_lengths := ln,
              episode_nr := episode_nr s + 1, gradient1 := g1, gradient2 := g2,
              world := wd\<rparr>"
  have sh1: "same_shape g1 (gradient1 s)" and sh2: "same_shape g2 (gradient2 s)"
    using inplace2_shape [OF g1] inplace2_shape [OF g2] by simp_all
  have mid_shapes: "state_shapes mid"
    using assms(2) sh1 sh2 by (auto simp: state_shapes_def mid_def same_shape_def)
  have fields: "episode_nr s' = episode_nr s + 1 \<and> state_shapes s' \<and>
       (if episode_nr s' mod batch_size cfg = 0
        then iteration s' = iteration s + 1 \<and>
             rmsprop1 s' = spec_cache cfg (rmsprop1 s) g1 \<and>
             rmsprop2 s' = spec_cache cfg (rmsprop2 s) g2 \<and>
             w1 s' = spec_weights cfg (w1 s) (rmsprop1 s') g1 \<and>
             w2 s' = spec_weights cfg (w2 s) (rmsprop2 s') g2 \<and>
             gradient1 s' = zeros_like (w1 s) \<and> gradient2 s' = zeros_like (w2 s)
        else iteration s' = iteration s \<and>
             rmsprop1 s' = rmsprop1 s \<and> rmsprop2 s' = rmsprop2 s \<and>
             w1 s' = w1 s \<and> w2 s' = w2 s \<and>
             gradient1 s' = g1 \<and> gradient2 s' = g2)"
  proof (cases "(episode_nr s + 1) mod batch_size cfg = 0")
    case True
    with fin have bu: "batch_update cfg mid = Inr s'"
      by (simp add: mid_def)
    from batch_update_eq [OF mid_shapes bu] have
      f: "iteration s' = iteration s + 1"
        "rmsprop1 s' = spec_cache cfg (rmsprop1 s) g1"
        "rmsprop2 s' = spec_cache cfg (rmsprop2 s) g2"
        "w1 s' = spec_weights cfg (w1 s) (rmsprop1 s') g1"
        "w2 s' = spec_weights cfg (w2 s) (rmsprop2 s') g2"
        "gradient1 s' = zeros_like (w1 s')" "gradient2 s' = zeros_like (w2 s')"
        "episode_nr s' = episode_nr s + 1"
      by (simp_all add: mid_def)
    have w: "same_shape (w1 s') (w1 s)" "same_shape (w2 s') (w2 s)"
      by (simp_all add: f(4,5))
    have z: "gradient1 s' = zeros_like (w1 s)" "gradient2 s' = zeros_like (w2 s)"
      using f(6,7) zeros_like_same_shape [OF w(1)] zeros_like_same_shape [OF w(2)]
      by simp_all
    have "state_shapes s'"
      using assms(2) w z f(2,3)
      by (auto simp: state_shapes_def same_shape_def zeros_like_def spec_cache_def)
    with True f z show ?thesis
      by simp
  next
    case False
    with fin have "s' = mid"
      by (simp add: mid_def)
    with False mid_shapes show ?thesis
      by (simp add: mid_def)
  qed
  with gt bs eg g1 g2 show ?thesis
    by blast
qed

lemma div_succ_int:
  fixes e b :: int
  assumes "0 < b"
  shows "(e + 1) div b = e div b + (if (e + 1) mod b = 0 then 1 else 0)"
proof -
  define q where "q = e div b"
  define r where "r = e mod b"
  have e: "e = b * q + r" and r: "0 \<le> r" "r < b"
    using assms by (simp_all add: q_def r_def)
  show ?thesis
  proof (cases "r + 1 = b")
    case True
    then have eq: "e + 1 = b * (q + 1) + 0"
      using e by (simp add: algebra_simps)
    have "(e + 1) div b = q + 1" "(e + 1) mod b = 0"
      using int_div_pos_eq [OF eq] int_mod_pos_eq [OF eq] assms by simp_all
    then show ?thesis
      by (simp add: q_def)
  next
    case False
    then have lt: "r + 1 < b"
      using r by simp
    have eq: "e + 1 = b * q + (r + 1)"
      using e by simp
    have "(e + 1) div b = q" "(e + 1) mod b = r + 1"
      using int_div_pos_eq [OF eq] int_mod_pos_eq [OF eq] lt r by simp_all
    then show ?thesis
      using r by (simp add: q_def)
  qed
qed

text \<open>
  The run of the loop. \<open>learn\<close> starts it from a state whose accumulators and caches
  have the shapes of the weights, and after any number of passes they still have; the
  episode counter has grown by the number of passes, and the iteration counter is the
  number of multiples of \<open>batch_size\<close> that the episode counter has reached.
\<close>

lemma state_shapes_learn_init:
  assumes "learn_init cfg W1 W2 wd = Inr s"
  shows "state_shapes s \<and> episode_nr s = 0 \<and> iteration s = 0 \<and> 0 \<le> batch_size cfg \<and>
         w1 s = W1 \<and> w2 s = W2"
  using assms
  by (auto simp: learn_init_def state_shapes_def same_shape_def zeros_like_def
      split: if_splits)

lemma learn_passes_counters:
  assumes "learn_passes env choice cfg n_act n s = Inr s'"
    and "state_shapes s"
    and "0 \<le> batch_size cfg"
    and "iteration s = episode_nr s div batch_size cfg"
  shows "state_shapes s' \<and> episode_nr s' = episode_nr s + int n \<and>
         iteration s' = episode_nr s' div batch_size cfg"
  using assms
proof (induction n arbitrary: s)
  case 0
  then show ?case by simp
next
  case (Suc n)
  from Suc.prems(1) obtain s1 where
    b: "learn_body env choice cfg n_act s = Inr s1"
    and rest: "learn_passes env choice cfg n_act n s1 = Inr s'"
    by (auto split: sum.splits)
  from learn_body_update_eq [OF b Suc.prems(2)] have
    e1: "episode_nr s1 = episode_nr s + 1" and nz: "batch_size cfg \<noteq> 0"
    and sh: "state_shapes s1"
    and it: "iteration s1 = iteration s + (if episode_nr s1 mod batch_size cfg = 0 then 1 else 0)"
    by (auto split: if_splits)
  have pos: "0 < batch_size cfg"
    using nz Suc.prems(3) by simp
  have "iteration s1 = episode_nr s1 div batch_size cfg"
    using it e1 Suc.prems(4) div_succ_int [OF pos, of "episode_nr s"] by simp
  from Suc.IH [OF rest sh Suc.prems(3) this] e1 show ?case
    by simp
qed

text \<open>
  C3. In every pass of the loop the episode counter grows by one. Exactly when its new
  value is a multiple of \<open>batch_size\<close> the pass increments the iteration counter,
  replaces each cache by \<open>decay_rate * cache + (1 - decay_rate) * gradient\<^sup>2\<close>, adds
  \<open>learning_rate * gradient / (sqrt(cache) + 1e-5)\<close> to each weight matrix, where
  \<open>gradient\<close> is the accumulator with the gradient of this episode added and
  \<open>cache\<close> the new cache, and sets both accumulators to zero. In every other pass the
  iteration counter, the weights and the caches stay as they are and the accumulators
  keep the sum. No pass assigns anything else to a cache, so the caches are never reset.
\<close>

theorem learn_body_update:
  assumes "learn_body env choice cfg n_act s = Inr s'" and "state_shapes s"
  shows "episode_nr s' = episode_nr s + 1 \<and> batch_size cfg \<noteq> 0 \<and> state_shapes s' \<and>
    (\<exists>tr wd c1 c2 g1 g2.
       get_trajectory env choice (w1 s) (w2 s) n_act (episode_max_length cfg)
         (episode_max_length cfg \<noteq> 0) (world s) = Inr (tr, wd) \<and>
       episode_gradient (w2 s) n_act (gamma cfg) tr = Inr (c1, c2) \<and>
       inplace2 (\<lambda>x y. x + y) (gradient1 s) c1 = Inr g1 \<and>
       inplace2 (\<lambda>x y. x + y) (gradient2 s) c2 = Inr g2 \<and>
       (if episode_nr s' mod batch_size cfg = 0
        then iteration s' = iteration s + 1 \<and>
             rmsprop1 s' = spec_cache cfg (rmsprop1 s) g1 \<and>
             rmsprop2 s' = spec_cache cfg (rmsprop2 s) g2 \<and>
             w1 s' = spec_weights cfg (w1 s) (rmsprop1 s') g1 \<and>
             w2 s' = spec_weights cfg (w2 s) (rmsprop2 s') g2 \<and>
             gradient1 s' = zeros_like (w1 s) \<and> gradient2 s' = zeros_like (w2 s)
        else iteration s' = iteration s \<and>
             rmsprop1 s' = rmsprop1 s \<and> rmsprop2 s' = rmsprop2 s \<and>
             w1 s' = w1 s \<and> w2 s' = w2 s \<and>
             gradient1 s' = g1 \<and> gradient2 s' = g2))"
  using assms by (rule learn_body_update_eq)

lemma learn_body_draws_eq:
  assumes "learn_body env choice cfg n_act s = Inr s'"
  shows "count_draws (calls (world s')) =
           count_draws (calls (world s)) +
             (if (episode_nr s + 1) mod batch_size cfg = 0 \<and>
                 (episode_nr s + 1) mod draw_frequency cfg = 0 then 1 else 0)"
proof -
  from learn_body_result [OF assms] obtain tr wd rw ln c1 c2 g1 g2 where
    gt: "get_trajectory env choice (w1 s) (w2 s) n_act (episode_max_length cfg)
           (episode_max_length cfg \<noteq> 0) (world s) = Inr (tr, wd)"
    and fin: "if (episode_nr s + 1) mod batch_size cfg = 0
            then batch_update cfg
                   (s\<lparr>episode_rewards := rw, episode_lengths := ln,
                      episode_nr := episode_nr s + 1, gradient1 := g1, gradient2 := g2,
                      world := wd\<rparr>) = Inr s'
            else s' = s\<lparr>episode_rewards := rw, episode_lengths := ln,
                      episode_nr := episode_nr s + 1, gradient1 := g1, gradient2 := g2,
                      world := wd\<rparr>"
    by blast
  have d: "count_draws (calls wd) = count_draws (calls (world s))"
    by (rule count_draws_get_trajectory [OF gt])
  show ?thesis
  proof (cases "(episode_nr s + 1) mod batch_size cfg = 0")
    case True
    with fin batch_update_calls
      [of cfg "s\<lparr>episode_rewards := rw, episode_lengths := ln,
                  episode_nr := episode_nr s + 1, gradient1 := g1, gradient2 := g2,
                  world := wd\<rparr>" s']
    show ?thesis
      using d by simp
  next
    case False
    with fin d show ?thesis
      by simp
  qed
qed

section \<open>A pass of the loop on the examples\<close>

lemma choose_action_round:
  "choose_action round_sampler example_w1 example_w2 2 [Fin 1, Fin 0] rng =
     Inr ((rng mod 2, [Fin (1 / 2), Fin (1 / 2)], [Fin 1]), Suc rng)"
  by (simp add: choose_action_def forward_step_def np_dot_vec_def ent_def example_w1_def
        example_w2_def sigmoid_def random_with_probability_def round_sampler_def
        is_distribution_def zero_npfloat_def one_npfloat_def upt_conv_Cons)

lemma get_trajectory_round:
  "get_trajectory two_step_env round_sampler example_w1 example_w2 2 2 True
     \<lparr>env_state = 0, rng_state = 0, calls = []\<rparr> =
   Inr (two_step_trajectory,
        \<lparr>env_state = 2, rng_state = 2,
           calls = [EnvReset, EnvStep 0 False, EnvRender, EnvStep 1 True]\<rparr>)"
proof -
  have n: "nat 2 = Suc (Suc 0)"
    by simp
  show ?thesis
    unfolding get_trajectory_def n
    by (simp add: two_step_env_def empty_trajectory_def choose_action_round
          two_step_trajectory_def)
qed

lemma episode_gradient_two_step:
  "episode_gradient example_w2 2 (99 / 100) two_step_trajectory =
     Inr (\<lparr>nrows = 2, ncols = 1, rows = [[Fin 0], [Fin 0]]\<rparr>,
          \<lparr>nrows = 1, ncols = 2, rows = [[Fin 1, Fin (- 1)]]\<rparr>)"
proof -
  have e: "spec_error_signal 2 (99 / 100) two_step_trajectory [2, 0] =
      \<lparr>nrows = 2, ncols = 2,
         rows = [[Fin (1 / 2), Fin (- (1 / 2))], [Fin (1 / 2), Fin (- (1 / 2))]]\<rparr>"
    by (simp add: spec_error_signal_def spec_standardized_two_step two_step_trajectory_def
          tabulate2_def upt_conv_Cons one_npfloat_def zero_npfloat_def)
  have "episode_gradient example_w2 2 (99 / 100) two_step_trajectory =
    backward_step example_w2
      (np_array (traj_state two_step_trajectory)) (np_array (traj_x1 two_step_trajectory))
      (spec_error_signal 2 (99 / 100) two_step_trajectory [2, 0])"
    by (rule episode_gradient_Fin) (simp_all add: two_step_trajectory_def)
  then show ?thesis
    unfolding e
    by (simp add: two_step_trajectory_def np_array_def backward_step_def np_dot_def
          transpose_a_def mask_le_zero_def tabulate2_def ent_def zero_npfloat_def
          example_w2_def upt_conv_Cons)
qed

lemma sqrt_hundredth: "sqrt (1 / 100) = 1 / 10"
  by (rule real_sqrt_unique) (simp_all add: power2_eq_square)

lemma learn_body_first_pass:
  "learn_body two_step_env round_sampler small_config 2 first_pass_state = Inr after_first_pass"
proof -
  have rw: "traj_reward two_step_trajectory = [Fin 2, Fin 0]"
    by (simp add: two_step_trajectory_def)
  show ?thesis
    apply (simp add: learn_body_def first_pass_state_def small_config_def get_trajectory_round
        episode_gradient_two_step py_mod_def Let_def setitem_def py_sum_def rw zero_npfloat_def)
    apply (simp add: inplace2_def broadcast2_def bdim_def bent_def
          zeros_like_def example_w1_def example_w2_def tabulate2_def ent_def
          batch_update_def rmsprop_cache_def rmsprop_step_def map_array_def np_mean_def
          zero_npfloat_def one_npfloat_def upt_conv_Cons Let_def sqrt_hundredth py_mod_def rw
          after_first_pass_def)
    done
qed

lemma state_shapes_first_pass: "state_shapes first_pass_state"
  by (simp add: state_shapes_def same_shape_def first_pass_state_def zeros_like_def)

text \<open>
  The first pass on the examples, with batches of one episode: the gradient of the episode
  is 0 for \<open>W1\<close> and \<open>[[1, -1]]\<close> for \<open>W2\<close>; the cache of \<open>W2\<close> becomes
  \<open>1 / 100\<close> in both entries and its weights change by
  \<open>(5 / 100) / (1 / 10 + 1 / 100000)\<close>.
\<close>

theorem learn_body_update_witness:
  "learn_body two_step_env round_sampler small_config 2 first_pass_state =
     Inr after_first_pass \<and>
   episode_nr after_first_pass = episode_nr first_pass_state + 1 \<and>
   state_shapes after_first_pass \<and>
   iteration after_first_pass = 1 \<and>
   rmsprop2 after_first_pass =
     \<lparr>nrows = 1, ncols = 2, rows = [[Fin (1 / 100), Fin (1 / 100)]]\<rparr>"
  using learn_body_update [OF learn_body_first_pass state_shapes_first_pass]
    learn_body_first_pass
  by (simp add: after_first_pass_def)

text \<open>
  C7, as the claim states it, fails: with the default batches of 10 episodes and
  \<open>draw_frequency = 50\<close>, the update that ends the fiftieth episode is the fifth, and
  it requests a redraw; five is no multiple of fifty.
\<close>

theorem batch_update_fifth_iteration_counterexample:
  "count_draws (calls (world fiftieth_episode_state)) = 0 \<and>
   iteration (projr (batch_update default_config fiftieth_episode_state)) = 5 \<and>
   count_draws (calls (world (projr (batch_update default_config fiftieth_episode_state)))) = 1"
  by (simp add: fiftieth_episode_state_def default_config_def start_world_def one_by_one_def
        batch_update_def rmsprop_cache_def rmsprop_step_def map_array_def broadcast2_def
        inplace2_def bdim_def bent_def tabulate2_def ent_def zeros_like_def py_mod_def
        np_mean_def Let_def zero_npfloat_def)

text \<open>
  C7, amended. A pass of the loop requests a redraw of the reward curve exactly when the
  episode counter, after the pass has incremented it, is a multiple of both
  \<open>batch_size\<close> and \<open>draw_frequency\<close>: the request is made at the end of a batch
  and \<open>draw_frequency\<close> counts episodes, not iterations. It is then made once.
\<close>

theorem learn_body_draws:
  assumes "learn_body env choice cfg n_act s = Inr s'"
  shows "count_draws (calls (world s')) =
           count_draws (calls (world s)) +
             (if (episode_nr s + 1) mod batch_size cfg = 0 \<and>
                 (episode_nr s + 1) mod draw_frequency cfg = 0 then 1 else 0)"
  using assms by (rule learn_body_draws_eq)

theorem learn_body_draws_witness:
  "count_draws (calls (world first_pass_state)) = 0 \<and>
   count_draws (calls (world after_first_pass)) = 1 \<and>
   (episode_nr first_pass_state + 1) mod batch_size small_config = 0 \<and>
   (episode_nr first_pass_state + 1) mod draw_frequency small_config = 0"
  using learn_body_draws [OF learn_body_first_pass]
  by (simp add: first_pass_state_def small_config_def)

end
